theory Spec2Isabelle
  imports Complex_Main "HOL-Library.Product_Lexorder" "HOL-Library.Multiset"
begin

section \<open>JavaScript values as RulesService.js sees them\<close>

text \<open>
  Everything \<^verbatim>\<open>RulesService.js\<close> inspects is a value that came out of \<^verbatim>\<open>JSON.parse\<close>
  (a request body, or a JSONB column read back by the driver), or \<^verbatim>\<open>undefined\<close> for a
  property that is not there. An object is the sequence of its key/value bindings; as
  in \<^verbatim>\<open>JSON.parse\<close> and in an object literal, a later binding of a key overrides an
  earlier one. Numbers are rationals (every finite double is one; no JSON text denotes
  NaN). A character stands for one UTF-16 code unit below 256.
\<close>

datatype jv =
    JUndefined
  | JNull
  | JBool bool
  | JNum rat
  | JStr string
  | JArr "jv list"
  | JObj "(string \<times> jv) list"

text \<open>What a \<^verbatim>\<open>throw\<close> carries. \<open>Error m\<close> is \<^verbatim>\<open>new Error(m)\<close>; \<open>DbError\<close> is any
  rejection of \<^verbatim>\<open>databaseService.query\<close>.\<close>

datatype js_error = TypeError | SyntaxError | Error string | DbError

text \<open>Sequencing of computations that may throw: the first \<open>Inl\<close> wins.\<close>

fun and_then :: "'e + 'a \<Rightarrow> ('a \<Rightarrow> 'e + 'b) \<Rightarrow> 'e + 'b" where
  "and_then (Inl e) f = Inl e"
| "and_then (Inr v) f = f v"

text \<open>ToBoolean.\<close>

fun truthy :: "jv \<Rightarrow> bool" where
  "truthy JUndefined = False"
| "truthy JNull = False"
| "truthy (JBool b) = b"
| "truthy (JNum q) = (q \<noteq> 0)"
| "truthy (JStr s) = (s \<noteq> [])"
| "truthy (JArr xs) = True"
| "truthy (JObj kvs) = True"

text \<open>\<^verbatim>\<open>a || b\<close> on values that are already computed.\<close>

definition js_or :: "jv \<Rightarrow> jv \<Rightarrow> jv" where
  "js_or a b = (if truthy a then a else b)"

text \<open>
  The property read \<^verbatim>\<open>o.k\<close>, for the property names the service reads
  (\<^verbatim>\<open>rule_type\<close>, \<^verbatim>\<open>keywords\<close>, \<^verbatim>\<open>text\<close>, \<^verbatim>\<open>length\<close>, ...): none of them is an index, and
  apart from \<^verbatim>\<open>length\<close> none is found on a prototype. Reading a property of
  \<^verbatim>\<open>undefined\<close> or \<^verbatim>\<open>null\<close> throws a TypeError.
\<close>

fun js_get :: "jv \<Rightarrow> string \<Rightarrow> js_error + jv" where
  "js_get JUndefined k = Inl TypeError"
| "js_get JNull k = Inl TypeError"
| "js_get (JObj kvs) k = Inr (case map_of (rev kvs) k of None \<Rightarrow> JUndefined | Some v \<Rightarrow> v)"
| "js_get (JStr s) k = Inr (if k = ''length'' then JNum (of_nat (length s)) else JUndefined)"
| "js_get (JArr xs) k = Inr (if k = ''length'' then JNum (of_nat (length xs)) else JUndefined)"
| "js_get (JBool b) k = Inr JUndefined"
| "js_get (JNum q) k = Inr JUndefined"

text \<open>\<^verbatim>\<open>Array.isArray\<close>.\<close>

fun isArray :: "jv \<Rightarrow> bool" where
  "isArray (JArr xs) = True"
| "isArray v = False"

section \<open>Rule validation\<close>

record validation =
  isValid :: bool
  errors :: "string list"

text \<open>
  The body of the \<^verbatim>\<open>try\<close> block of \<^verbatim>\<open>validateRule\<close>. The three generic checks push
  their messages in order; the \<^verbatim>\<open>switch\<close> compares \<^verbatim>\<open>rule_type\<close> with \<^verbatim>\<open>===\<close> and
  reads the type-specific key from \<^verbatim>\<open>ruleConfig.rule_config\<close>, which throws when
  that is \<^verbatim>\<open>undefined\<close> or \<^verbatim>\<open>null\<close>.
\<close>

definition validateRule_try :: "jv \<Rightarrow> js_error + validation" where
  "validateRule_try ruleConfig =
     and_then (js_get ruleConfig ''rule_type'') (\<lambda>rule_type.
     and_then (js_get ruleConfig ''rule_name'') (\<lambda>rule_name.
     and_then (js_get ruleConfig ''rule_config'') (\<lambda>rule_config.
       let errors0 = (if \<not> truthy rule_type then [''Rule type is required''] else []);
           errors1 = errors0 @ (if \<not> truthy rule_name then [''Rule name is required''] else []);
           errors2 = errors1 @ (if \<not> truthy rule_config then [''Rule configuration is required''] else [])
       in and_then
            (if rule_type = JStr ''keyword_filter'' then
               and_then (js_get rule_config ''keywords'') (\<lambda>keywords.
                 Inr (if \<not> truthy keywords \<or> \<not> isArray keywords
                      then errors2 @ [''Keywords array is required for keyword_filter rule type'']
                      else errors2))
             else if rule_type = JStr ''url_filter'' then
               and_then (js_get rule_config ''domains'') (\<lambda>domains.
               and_then (js_get rule_config ''patterns'') (\<lambda>patterns.
                 Inr (if \<not> truthy domains \<and> \<not> truthy patterns
                      then errors2 @ [''Domains or patterns are required for url_filter rule type'']
                      else errors2)))
             else if rule_type = JStr ''content_filter'' then
               and_then (js_get rule_config ''filters'') (\<lambda>filters.
                 Inr (if \<not> truthy filters \<or> \<not> isArray filters
                      then errors2 @ [''Filters array is required for content_filter rule type'']
                      else errors2))
             else Inr errors2)
            (\<lambda>errors. Inr \<lparr>isValid = (length errors = 0), errors = errors\<rparr>))))"

text \<open>\<^verbatim>\<open>validateRule\<close>: the \<^verbatim>\<open>catch\<close> turns every throw of the body into the fixed
  generic result (the logger call is not modelled).\<close>

definition validateRule :: "jv \<Rightarrow> js_error + validation" where
  "validateRule ruleConfig =
     (case validateRule_try ruleConfig of
        Inr result \<Rightarrow> Inr result
      | Inl error \<Rightarrow> Inr \<lparr>isValid = False, errors = [''Validation error occurred'']\<rparr>)"

section \<open>Strings\<close>

text \<open>\<^verbatim>\<open>String.prototype.toLowerCase\<close> on code units below 256: the ASCII capitals and
  the Latin-1 capitals (U+00C0 to U+00DE without the multiplication sign U+00D7) move
  up by 32.\<close>

definition lower_char :: "char \<Rightarrow> char" where
  "lower_char c =
     (let n = (of_char c :: nat)
      in if (65 \<le> n \<and> n \<le> 90) \<or> (192 \<le> n \<and> n \<le> 222 \<and> n \<noteq> 215)
         then char_of (n + 32) else c)"

definition toLowerCase :: "string \<Rightarrow> string" where
  "toLowerCase s = map lower_char s"

fun startsWith :: "string \<Rightarrow> string \<Rightarrow> bool" where
  "startsWith s [] = True"
| "startsWith [] (p # ps) = False"
| "startsWith (c # cs) (p # ps) = (c = p \<and> startsWith cs ps)"

text \<open>\<^verbatim>\<open>String.prototype.includes\<close> with a string argument.\<close>

fun str_includes :: "string \<Rightarrow> string \<Rightarrow> bool" where
  "str_includes [] p = (p = [])"
| "str_includes (c # cs) p = (startsWith (c # cs) p \<or> str_includes cs p)"

text \<open>\<^verbatim>\<open>Array.prototype.join\<close> on strings.\<close>

fun join :: "string \<Rightarrow> string list \<Rightarrow> string" where
  "join sep [] = []"
| "join sep [x] = x"
| "join sep (x # y # ys) = x @ sep @ join sep (y # ys)"

text \<open>The decimal rendering of a count, as a template literal prints it.\<close>

function show_nat :: "nat \<Rightarrow> string" where
  "show_nat n =
     (if n < 10 then [char_of (48 + n)]
      else show_nat (n div 10) @ [char_of (48 + n mod 10)])"
  by pat_completeness auto
termination
  by (relation "measure (\<lambda>n. n)") auto

declare show_nat.simps [simp del]

text \<open>Comparison of two strings by code units, as \<^verbatim>\<open><\<close> does it.\<close>

fun str_lt :: "string \<Rightarrow> string \<Rightarrow> bool" where
  "str_lt [] [] = False"
| "str_lt [] (d # ds) = True"
| "str_lt (c # cs) [] = False"
| "str_lt (c # cs) (d # ds) =
     ((of_char c :: nat) < of_char d \<or> (c = d \<and> str_lt cs ds))"

section \<open>The JavaScript runtime and the database driver\<close>

text \<open>
  What the service calls but does not define is a parameter of the model: the regular
  expression engine, the URL parser, and the two conversions between numbers and
  strings. Every theorem below holds for every runtime.
  \<^item> \<open>regexp_valid p\<close>: \<^verbatim>\<open>new RegExp(p, flags)\<close> does not throw a SyntaxError;
  \<^item> \<open>regexp_count_gi p s\<close>: the length of \<^verbatim>\<open>s.match(new RegExp(p, 'gi'))\<close>, 0 for
    \<^verbatim>\<open>null\<close>;
  \<^item> \<open>regexp_test p s\<close>: \<^verbatim>\<open>s.match(new RegExp(p))\<close> is not \<^verbatim>\<open>null\<close>;
  \<^item> \<open>url_hostname u\<close>: \<^verbatim>\<open>new URL(u).hostname\<close>, \<open>None\<close> when the constructor throws;
  \<^item> \<open>number_to_string\<close>: Number::toString; \<open>string_to_number\<close>: StringToNumber,
    \<open>None\<close> for NaN.
\<close>

record js_runtime =
  regexp_valid :: "string \<Rightarrow> bool"
  regexp_count_gi :: "string \<Rightarrow> string \<Rightarrow> nat"
  regexp_test :: "string \<Rightarrow> string \<Rightarrow> bool"
  url_hostname :: "string \<Rightarrow> string option"
  number_to_string :: "rat \<Rightarrow> string"
  string_to_number :: "string \<Rightarrow> rat option"

text \<open>ToString. An array joins its elements with a comma, \<^verbatim>\<open>undefined\<close> and \<^verbatim>\<open>null\<close>
  elements as the empty string.\<close>

fun to_string :: "js_runtime \<Rightarrow> jv \<Rightarrow> string" where
  "to_string rt JUndefined = ''undefined''"
| "to_string rt JNull = ''null''"
| "to_string rt (JBool b) = (if b then ''true'' else ''false'')"
| "to_string rt (JNum q) = number_to_string rt q"
| "to_string rt (JStr s) = s"
| "to_string rt (JArr xs) =
     join '','' (map (\<lambda>x. if x = JUndefined \<or> x = JNull then [] else to_string rt x) xs)"
| "to_string rt (JObj kvs) = ''[object Object]''"

text \<open>ToPrimitive: arrays and objects become their string.\<close>

fun to_primitive :: "js_runtime \<Rightarrow> jv \<Rightarrow> jv" where
  "to_primitive rt (JArr xs) = JStr (to_string rt (JArr xs))"
| "to_primitive rt (JObj kvs) = JStr (to_string rt (JObj kvs))"
| "to_primitive rt v = v"

text \<open>ToNumber, \<open>None\<close> for NaN.\<close>

fun to_number :: "js_runtime \<Rightarrow> jv \<Rightarrow> rat option" where
  "to_number rt JUndefined = None"
| "to_number rt JNull = Some 0"
| "to_number rt (JBool b) = Some (if b then 1 else 0)"
| "to_number rt (JNum q) = Some q"
| "to_number rt (JStr s) = string_to_number rt s"
| "to_number rt (JArr xs) = string_to_number rt (to_string rt (JArr xs))"
| "to_number rt (JObj kvs) = string_to_number rt (to_string rt (JObj kvs))"

text \<open>IsLessThan: \<open>None\<close> is the \<^verbatim>\<open>undefined\<close> a NaN operand produces. Two strings are
  compared as strings, anything else as numbers.\<close>

definition js_less :: "js_runtime \<Rightarrow> jv \<Rightarrow> jv \<Rightarrow> bool option" where
  "js_less rt x y =
     (case (to_primitive rt x, to_primitive rt y) of
        (JStr a, JStr b) \<Rightarrow> Some (str_lt a b)
      | (px, py) \<Rightarrow>
          (case (to_number rt px, to_number rt py) of
             (Some a, Some b) \<Rightarrow> Some (a < b)
           | _ \<Rightarrow> None))"

text \<open>\<^verbatim>\<open>x > y\<close> and \<^verbatim>\<open>x >= y\<close>.\<close>

definition js_gt :: "js_runtime \<Rightarrow> jv \<Rightarrow> jv \<Rightarrow> bool" where
  "js_gt rt x y = (js_less rt y x = Some True)"

definition js_ge :: "js_runtime \<Rightarrow> jv \<Rightarrow> jv \<Rightarrow> bool" where
  "js_ge rt x y = (js_less rt x y = Some False)"

text \<open>What \<^verbatim>\<open>for (const x of v)\<close> runs over: the elements of an array, the characters
  of a string; anything else is not iterable.\<close>

fun js_iter :: "jv \<Rightarrow> js_error + jv list" where
  "js_iter (JArr xs) = Inr xs"
| "js_iter (JStr s) = Inr (map (\<lambda>c. JStr [c]) s)"
| "js_iter v = Inl TypeError"

text \<open>\<^verbatim>\<open>s.match(p)\<close> for a string \<open>s\<close> and a pattern \<open>p\<close> that is not a RegExp: the
  pattern is compiled from its string (the empty pattern for \<^verbatim>\<open>undefined\<close>), which
  may throw; the result says whether there is a match.\<close>

definition pattern_source :: "js_runtime \<Rightarrow> jv \<Rightarrow> string" where
  "pattern_source rt p = (if p = JUndefined then [] else to_string rt p)"

definition str_match :: "js_runtime \<Rightarrow> string \<Rightarrow> jv \<Rightarrow> js_error + bool" where
  "str_match rt s p =
     (if regexp_valid rt (pattern_source rt p)
      then Inr (regexp_test rt (pattern_source rt p) s) else Inl SyntaxError)"

section \<open>Rule evaluation\<close>

text \<open>What one rule says about one message. \<open>action\<close> is a value, not a string: it is
  copied from the rule's configuration, which may hold anything there.\<close>

record evaluation =
  action :: jv
  reason :: string
  matched :: bool

text \<open>\<^verbatim>\<open>message.text || message.content || ''\<close>\<close>

definition message_text :: "jv \<Rightarrow> js_error + jv" where
  "message_text message =
     and_then (js_get message ''text'') (\<lambda>text.
       if truthy text then Inr text
       else and_then (js_get message ''content'') (\<lambda>content.
              Inr (js_or content (JStr []))))"

subsection \<open>keyword\_filter\<close>

text \<open>
  The \<^verbatim>\<open>for\<close> loop of \<^verbatim>\<open>evaluateKeywordFilter\<close>, with \<^verbatim>\<open>matchCount\<close> and
  \<^verbatim>\<open>matchedKeywords\<close> as accumulators. \<^verbatim>\<open>keyword.toLowerCase()\<close> throws on anything
  but a string; \<^verbatim>\<open>new RegExp\<close> throws on a pattern that is not valid; the loop has no
  other exit.
\<close>

fun keyword_loop ::
  "js_runtime \<Rightarrow> string \<Rightarrow> jv list \<Rightarrow> nat \<Rightarrow> string list \<Rightarrow> js_error + (nat \<times> string list)"
where
  "keyword_loop rt text [] matchCount matchedKeywords = Inr (matchCount, matchedKeywords)"
| "keyword_loop rt text (keyword # rest) matchCount matchedKeywords =
     (case keyword of
        JStr k \<Rightarrow>
          if regexp_valid rt (toLowerCase k) then
            (let matches = regexp_count_gi rt (toLowerCase k) text
             in if matches > 0
                then keyword_loop rt text rest (matchCount + matches) (matchedKeywords @ [k])
                else keyword_loop rt text rest matchCount matchedKeywords)
          else Inl SyntaxError
      | _ \<Rightarrow> Inl TypeError)"

definition evaluateKeywordFilter :: "js_runtime \<Rightarrow> jv \<Rightarrow> jv \<Rightarrow> js_error + evaluation" where
  "evaluateKeywordFilter rt config message =
     and_then (js_get config ''keywords'') (\<lambda>keywords.
     and_then (js_get config ''max_occurrences'') (\<lambda>max_occurrences0.
     and_then (js_get config ''action'') (\<lambda>action0.
     and_then (message_text message) (\<lambda>text.
       let max_occurrences = (if max_occurrences0 = JUndefined then JNum 1 else max_occurrences0);
           action = (if action0 = JUndefined then JStr ''block'' else action0)
       in case text of
            JStr text_s \<Rightarrow>
              and_then (js_iter keywords) (\<lambda>ks.
              and_then (keyword_loop rt text_s ks 0 []) (\<lambda>(matchCount, matchedKeywords).
                let matched = js_ge rt (JNum (of_nat matchCount)) max_occurrences
                in Inr \<lparr>action = (if matched then action else JStr ''allow''),
                        reason = (if matched
                                  then ''Matched '' @ show_nat matchCount @ '' keywords: ''
                                       @ join '', '' matchedKeywords
                                  else ''No keyword matches''),
                        matched = matched\<rparr>))
          | _ \<Rightarrow> Inl TypeError))))"

subsection \<open>url\_filter\<close>

text \<open>The class \<^verbatim>\<open>\s\<close> on code units below 256: tab, line feed, vertical tab, form
  feed, carriage return, space and no-break space.\<close>

definition is_space :: "char \<Rightarrow> bool" where
  "is_space c = ((of_char c :: nat) \<in> {9, 10, 11, 12, 13, 32, 160})"

text \<open>
  One attempt of \<^verbatim>\<open>/(https?:\/\/[^\s]+)/\<close> at the head of \<open>s\<close>: the scheme, then the
  longest run of non-space characters, which must not be empty. The result is the
  match and what follows it.
\<close>

definition url_match_at :: "string \<Rightarrow> (string \<times> string) option" where
  "url_match_at s =
     (let n = (if startsWith s ''https://'' then 8
               else if startsWith s ''http://'' then 7 else 0);
          body = takeWhile (\<lambda>c. \<not> is_space c) (drop n s)
      in if n = 0 \<or> body = [] then None
         else Some (take n s @ body, dropWhile (\<lambda>c. \<not> is_space c) (drop n s)))"

text \<open>The global match: the leftmost match, then on from its end.\<close>

function url_scan :: "string \<Rightarrow> string list" where
  "url_scan [] = []"
| "url_scan (c # cs) =
     (case url_match_at (c # cs) of
        Some (url, rest) \<Rightarrow> url # url_scan rest
      | None \<Rightarrow> url_scan cs)"
  by pat_completeness auto
termination
proof (relation "measure length")
  show "wf (measure length)" by simp
next
  fix c cs x2 url rest
  assume "url_match_at (c # cs) = Some x2" and "(url, rest) = x2"
  then have m: "url_match_at (c # cs) = Some (url, rest)" by simp
  have le: "length (dropWhile (\<lambda>c. \<not> is_space c) (drop k ys)) < Suc (length ys)"
    for k :: nat and ys :: string
  proof -
    have "length (dropWhile (\<lambda>c. \<not> is_space c) (drop k ys)) \<le> length (drop k ys)"
      by (rule length_dropWhile_le)
    also have "\<dots> \<le> length ys" by simp
    finally show ?thesis by simp
  qed
  from m show "(rest, c # cs) \<in> measure length"
    by (auto simp: url_match_at_def Let_def le split: if_splits)
next
  fix c :: char and cs :: string
  show "(cs, c # cs) \<in> measure length" by simp
qed

text \<open>\<^verbatim>\<open>extractUrls\<close>: \<^verbatim>\<open>text.match(urlRegex) || []\<close>; on anything but a string
  \<^verbatim>\<open>text.match\<close> is not a function.\<close>

fun extractUrls :: "jv \<Rightarrow> js_error + string list" where
  "extractUrls (JStr text) = Inr (url_scan text)"
| "extractUrls v = Inl TypeError"

text \<open>\<^verbatim>\<open>extractDomain\<close>: the host name, or the URL itself when it does not parse.\<close>

definition extractDomain :: "js_runtime \<Rightarrow> string \<Rightarrow> string" where
  "extractDomain rt url = (case url_hostname rt url of Some hostname \<Rightarrow> hostname | None \<Rightarrow> url)"

text \<open>\<^verbatim>\<open>v && v.length > 0\<close>\<close>

definition nonempty_list :: "js_runtime \<Rightarrow> jv \<Rightarrow> js_error + bool" where
  "nonempty_list rt v =
     (if truthy v then and_then (js_get v ''length'') (\<lambda>l. Inr (js_gt rt l (JNum 0)))
      else Inr False)"

text \<open>\<^verbatim>\<open>domains.some(domain => urlDomain.includes(domain))\<close>: only an array has
  \<^verbatim>\<open>some\<close>; \<^verbatim>\<open>includes\<close> takes the string of its argument.\<close>

fun domains_some :: "js_runtime \<Rightarrow> jv \<Rightarrow> string \<Rightarrow> js_error + bool" where
  "domains_some rt (JArr ds) urlDomain =
     Inr (list_ex (\<lambda>domain. str_includes urlDomain (to_string rt domain)) ds)"
| "domains_some rt v urlDomain = Inl TypeError"

text \<open>The inner loop over \<^verbatim>\<open>patterns\<close>: the first pattern the URL matches.\<close>

fun pattern_loop :: "js_runtime \<Rightarrow> string \<Rightarrow> jv list \<Rightarrow> js_error + jv option" where
  "pattern_loop rt url [] = Inr None"
| "pattern_loop rt url (pattern # rest) =
     and_then (str_match rt url pattern) (\<lambda>m.
       if m then Inr (Some pattern) else pattern_loop rt url rest)"

text \<open>The loop over the extracted URLs; \<open>act\<close> is the configured \<^verbatim>\<open>action\<close>.\<close>

fun url_loop :: "js_runtime \<Rightarrow> jv \<Rightarrow> jv \<Rightarrow> jv \<Rightarrow> string list \<Rightarrow> js_error + evaluation" where
  "url_loop rt domains patterns act [] =
     Inr \<lparr>action = JStr ''allow'', reason = ''No URL restrictions matched'', matched = False\<rparr>"
| "url_loop rt domains patterns act (url # urls) =
     and_then (nonempty_list rt domains) (\<lambda>check_domains.
     and_then (if check_domains then domains_some rt domains (extractDomain rt url)
               else Inr False) (\<lambda>domain_allowed.
       if domain_allowed then
         Inr \<lparr>action = JStr ''allow'',
              reason = ''Domain allowed: '' @ extractDomain rt url, matched = False\<rparr>
       else
         and_then (nonempty_list rt patterns) (\<lambda>check_patterns.
         and_then (if check_patterns
                   then and_then (js_iter patterns) (\<lambda>ps. pattern_loop rt url ps)
                   else Inr None) (\<lambda>hit.
           case hit of
             Some pattern \<Rightarrow>
               Inr \<lparr>action = act,
                    reason = ''URL matched pattern: '' @ to_string rt pattern, matched = True\<rparr>
           | None \<Rightarrow> url_loop rt domains patterns act urls))))"

definition evaluateUrlFilter :: "js_runtime \<Rightarrow> jv \<Rightarrow> jv \<Rightarrow> js_error + evaluation" where
  "evaluateUrlFilter rt config message =
     and_then (js_get config ''domains'') (\<lambda>domains.
     and_then (js_get config ''patterns'') (\<lambda>patterns.
     and_then (js_get config ''action'') (\<lambda>action0.
     and_then (message_text message) (\<lambda>text.
     and_then (extractUrls text) (\<lambda>urls.
       let action = (if action0 = JUndefined then JStr ''block'' else action0)
       in if length urls = 0
          then Inr \<lparr>action = JStr ''allow'', reason = ''No URLs found'', matched = False\<rparr>
          else url_loop rt domains patterns action urls)))))"

subsection \<open>content\_filter\<close>

text \<open>
  The loop of \<^verbatim>\<open>evaluateContentFilter\<close>. \<^verbatim>\<open>text\<close> is whatever the message carries:
  \<^verbatim>\<open>text.match\<close> exists on a string only, \<^verbatim>\<open>text.length\<close> is read from any value.
  \<open>act\<close> is the configured \<^verbatim>\<open>action\<close>.
\<close>

fun filter_loop :: "js_runtime \<Rightarrow> jv \<Rightarrow> jv \<Rightarrow> jv list \<Rightarrow> js_error + evaluation" where
  "filter_loop rt text act [] =
     Inr \<lparr>action = JStr ''allow'', reason = ''No content filters matched'', matched = False\<rparr>"
| "filter_loop rt text act (f # fs) =
     and_then (js_get f ''type'') (\<lambda>type.
     and_then (if type = JStr ''regex''
               then and_then (js_get f ''pattern'') (\<lambda>pattern.
                      case text of JStr s \<Rightarrow> str_match rt s pattern | _ \<Rightarrow> Inl TypeError)
               else Inr False) (\<lambda>regex_hit.
       if regex_hit then
         and_then (js_get f ''name'') (\<lambda>name.
           Inr \<lparr>action = act,
                reason = ''Content matched filter: '' @ to_string rt name, matched = True\<rparr>)
       else if type = JStr ''length'' then
         and_then (js_get text ''length'') (\<lambda>len.
         and_then (js_get f ''max_length'') (\<lambda>max_length.
           if js_gt rt len max_length then
             Inr \<lparr>action = act,
                  reason = ''Content too long: '' @ to_string rt len @ '' > ''
                           @ to_string rt max_length,
                  matched = True\<rparr>
           else filter_loop rt text act fs))
       else filter_loop rt text act fs))"

definition evaluateContentFilter :: "js_runtime \<Rightarrow> jv \<Rightarrow> jv \<Rightarrow> js_error + evaluation" where
  "evaluateContentFilter rt config message =
     and_then (js_get config ''filters'') (\<lambda>filters.
     and_then (js_get config ''action'') (\<lambda>action0.
     and_then (message_text message) (\<lambda>text.
     and_then (js_iter filters) (\<lambda>fs.
       filter_loop rt text (if action0 = JUndefined then JStr ''block'' else action0) fs))))"

subsection \<open>One rule\<close>

text \<open>A row of \<^verbatim>\<open>privacy_rules\<close>; \<open>rule_id\<close> is the column \<^verbatim>\<open>id\<close>. Times are integers.\<close>

record privacy_rule =
  rule_id :: string
  user_id :: string
  rule_type :: string
  rule_name :: string
  rule_description :: "string option"
  rule_config :: jv
  priority :: int
  is_active :: bool
  created_at :: int
  updated_at :: int
  created_by :: "string option"
  updated_by :: "string option"

text \<open>The \<^verbatim>\<open>switch\<close> inside the \<^verbatim>\<open>try\<close> of \<^verbatim>\<open>evaluateRule\<close>.\<close>

definition evaluateRule_try :: "js_runtime \<Rightarrow> privacy_rule \<Rightarrow> jv \<Rightarrow> js_error + evaluation" where
  "evaluateRule_try rt rule message =
     (let config = rule_config rule
      in if rule_type rule = ''keyword_filter'' then evaluateKeywordFilter rt config message
         else if rule_type rule = ''url_filter'' then evaluateUrlFilter rt config message
         else if rule_type rule = ''content_filter'' then evaluateContentFilter rt config message
         else Inr \<lparr>action = JStr ''allow'', reason = ''Unknown rule type'', matched = False\<rparr>)"

text \<open>\<^verbatim>\<open>evaluateRule\<close>: the \<^verbatim>\<open>catch\<close> answers every throw with the fixed fallback.\<close>

definition evaluateRule :: "js_runtime \<Rightarrow> privacy_rule \<Rightarrow> jv \<Rightarrow> js_error + evaluation" where
  "evaluateRule rt rule message =
     (case evaluateRule_try rt rule message of
        Inr result \<Rightarrow> Inr result
      | Inl error \<Rightarrow>
          Inr \<lparr>action = JStr ''allow'', reason = ''Evaluation error'', matched = False\<rparr>)"

section \<open>The store\<close>

text \<open>
  The tables the service touches, each a list of rows. A query is one call of
  \<^verbatim>\<open>databaseService.query\<close>; whether the call is rejected for a reason outside the
  statement (connection, server) is an input of the operation that makes it, a flag
  named after the statement.
\<close>

record rule_template =
  template_id :: string
  template_name :: string
  template_description :: "string option"
  template_category :: string
  template_config :: jv
  is_public :: bool

text \<open>The \<^verbatim>\<open>changes\<close> snapshot of an audit entry: \<^verbatim>\<open>{rule_data}\<close>, \<^verbatim>\<open>{updates}\<close> or
  \<^verbatim>\<open>{deleted_rule}\<close>.\<close>

datatype audit_changes = Rule_data jv | Updates jv | Deleted_rule privacy_rule

record audit_entry =
  audit_rule_id :: string
  audit_action :: string
  audit_user_id :: string
  changes :: audit_changes
  ip_address :: "string option"
  user_agent :: "string option"
  audit_created_at :: int

record database =
  privacy_rules :: "privacy_rule list"
  rule_templates :: "rule_template list"
  rule_audit_log :: "audit_entry list"

text \<open>
  How the server takes a JavaScript value as the parameter of a column is a parameter
  of the model, one function for each column type, given the column's name: \<open>None\<close>
  when the value is rejected (wrong type, too long for the column), which fails the
  whole statement. \<open>pg_jsonb\<close> takes the value whose \<^verbatim>\<open>JSON.stringify\<close> text is sent and
  gives the value a later read returns.
\<close>

record pg_driver =
  pg_text :: "string \<Rightarrow> jv \<Rightarrow> string option"
  pg_integer :: "string \<Rightarrow> jv \<Rightarrow> int option"
  pg_boolean :: "string \<Rightarrow> jv \<Rightarrow> bool option"
  pg_jsonb :: "string \<Rightarrow> jv \<Rightarrow> jv option"

text \<open>A statement parameter: \<^verbatim>\<open>undefined\<close> and \<^verbatim>\<open>null\<close> are sent as SQL NULL.\<close>

definition sql_param :: "(jv \<Rightarrow> 'a option) \<Rightarrow> jv \<Rightarrow> js_error + 'a option" where
  "sql_param accept v =
     (if v = JUndefined \<or> v = JNull then Inr None
      else case accept v of None \<Rightarrow> Inl DbError | Some x \<Rightarrow> Inr (Some x))"

text \<open>A NOT NULL column rejects NULL.\<close>

fun not_null :: "'a option \<Rightarrow> js_error + 'a" where
  "not_null None = Inl DbError"
| "not_null (Some x) = Inr x"

text \<open>\<^verbatim>\<open>COALESCE(p, old)\<close>\<close>

fun coalesce :: "'a option \<Rightarrow> 'a \<Rightarrow> 'a" where
  "coalesce None old = old"
| "coalesce (Some v) old = v"

subsection \<open>Audit log\<close>

text \<open>The INSERT of \<^verbatim>\<open>logAudit\<close>.\<close>

definition audit_insert :: "database \<Rightarrow> bool \<Rightarrow> audit_entry \<Rightarrow> js_error + database" where
  "audit_insert db audit_fails entry =
     (if audit_fails then Inl DbError
      else Inr (db\<lparr>rule_audit_log := rule_audit_log db @ [entry]\<rparr>))"

text \<open>\<^verbatim>\<open>logAudit\<close>: the \<^verbatim>\<open>catch\<close> logs the failure and returns normally.\<close>

definition logAudit ::
  "database \<Rightarrow> int \<Rightarrow> bool \<Rightarrow> string \<Rightarrow> string \<Rightarrow> string \<Rightarrow> audit_changes
    \<Rightarrow> string option \<Rightarrow> string option \<Rightarrow> (js_error + unit) \<times> database"
where
  "logAudit db now audit_fails ruleId act userId chg ipAddress userAgent =
     (case audit_insert db audit_fails
             \<lparr>audit_rule_id = ruleId, audit_action = act, audit_user_id = userId,
              changes = chg, ip_address = ipAddress, user_agent = userAgent,
              audit_created_at = now\<rparr> of
        Inr db' \<Rightarrow> (Inr (), db')
      | Inl error \<Rightarrow> (Inr (), db))"

subsection \<open>Rules\<close>

text \<open>
  The INSERT of \<^verbatim>\<open>createRule\<close>. \<^verbatim>\<open>rule_type\<close>, \<^verbatim>\<open>rule_name\<close> and \<^verbatim>\<open>rule_config\<close> are
  NOT NULL; \<^verbatim>\<open>JSON.stringify(undefined)\<close> is \<^verbatim>\<open>undefined\<close>, sent as NULL; \<^verbatim>\<open>id\<close> is the
  primary key; \<^verbatim>\<open>is_active\<close>, \<^verbatim>\<open>created_at\<close> and \<^verbatim>\<open>updated_at\<close> take their defaults.
\<close>

definition insert_rule ::
  "pg_driver \<Rightarrow> database \<Rightarrow> int \<Rightarrow> bool \<Rightarrow> string \<Rightarrow> string
    \<Rightarrow> jv \<Rightarrow> jv \<Rightarrow> jv \<Rightarrow> jv \<Rightarrow> jv \<Rightarrow> js_error + (privacy_rule \<times> database)"
where
  "insert_rule pg db now insert_fails ruleId userId rtype rname rdescription rconfig rpriority =
     and_then (and_then (sql_param (pg_text pg ''rule_type'') rtype) not_null) (\<lambda>c_type.
     and_then (and_then (sql_param (pg_text pg ''rule_name'') rname) not_null) (\<lambda>c_name.
     and_then (sql_param (pg_text pg ''rule_description'') rdescription) (\<lambda>c_description.
     and_then (if rconfig = JUndefined then Inl DbError
               else not_null (pg_jsonb pg ''rule_config'' rconfig)) (\<lambda>c_config.
     and_then (not_null (pg_integer pg ''priority'' rpriority)) (\<lambda>c_priority.
       if insert_fails \<or> ruleId \<in> rule_id ` set (privacy_rules db) then Inl DbError
       else
         (let row = \<lparr>rule_id = ruleId, user_id = userId, rule_type = c_type,
                     rule_name = c_name, rule_description = c_description,
                     rule_config = c_config, priority = c_priority, is_active = True,
                     created_at = now, updated_at = now,
                     created_by = Some userId, updated_by = None\<rparr>
          in Inr (row, db\<lparr>privacy_rules := privacy_rules db @ [row]\<rparr>)))))))"

text \<open>
  \<^verbatim>\<open>createRule\<close>. \<open>ruleId\<close> is the identifier \<^verbatim>\<open>uuidv4()\<close> draws and \<open>now\<close> the
  server's clock. \<^verbatim>\<open>priority || 1\<close> is never \<^verbatim>\<open>null\<close>. The result is what the call
  returns or throws, with the store it leaves.
\<close>

definition createRule ::
  "pg_driver \<Rightarrow> database \<Rightarrow> int \<Rightarrow> string \<Rightarrow> bool \<Rightarrow> bool \<Rightarrow> jv \<Rightarrow> string
    \<Rightarrow> string option \<Rightarrow> string option \<Rightarrow> (js_error + privacy_rule) \<times> database"
where
  "createRule pg db now ruleId insert_fails audit_fails ruleData userId ipAddress userAgent =
     (case and_then (js_get ruleData ''rule_type'') (\<lambda>rtype.
           and_then (js_get ruleData ''rule_name'') (\<lambda>rname.
           and_then (js_get ruleData ''rule_description'') (\<lambda>rdescription.
           and_then (js_get ruleData ''rule_config'') (\<lambda>rconfig.
           and_then (js_get ruleData ''priority'') (\<lambda>rpriority.
             insert_rule pg db now insert_fails ruleId userId
               rtype rname rdescription rconfig (js_or rpriority (JNum 1))))))) of
        Inl error \<Rightarrow> (Inl error, db)
      | Inr (row, db1) \<Rightarrow>
          (case logAudit db1 now audit_fails ruleId ''CREATE'' userId (Rule_data ruleData)
                  ipAddress userAgent of
             (Inl error, db2) \<Rightarrow> (Inl error, db2)
           | (Inr u, db2) \<Rightarrow> (Inr row, db2)))"

text \<open>The filters of \<^verbatim>\<open>getUserRules\<close>; \<open>None\<close> is a filter that is not applied.\<close>

record rule_filters =
  filter_rule_type :: "string option"
  filter_is_active :: "bool option"

text \<open>\<^verbatim>\<open>getUserRules\<close>: the owner's rows that pass the filters,
  \<^verbatim>\<open>ORDER BY priority DESC, created_at DESC\<close>; rows equal in both keep the order of the
  table.\<close>

definition getUserRules ::
  "database \<Rightarrow> bool \<Rightarrow> string \<Rightarrow> rule_filters \<Rightarrow> js_error + privacy_rule list"
where
  "getUserRules db select_fails userId filters =
     (if select_fails then Inl DbError
      else Inr (sort_key (\<lambda>r. (- priority r, - created_at r))
                  (filter (\<lambda>r. user_id r = userId
                              \<and> (case filter_rule_type filters of
                                    None \<Rightarrow> True | Some t \<Rightarrow> rule_type r = t)
                              \<and> (case filter_is_active filters of
                                    None \<Rightarrow> True | Some a \<Rightarrow> is_active r = a))
                     (privacy_rules db))))"

text \<open>
  \<^verbatim>\<open>updateRule\<close>. The UPDATE sets every column to \<^verbatim>\<open>COALESCE(parameter, column)\<close> on
  the rows with this id and owner, and \<^verbatim>\<open>updated_at\<close>, \<^verbatim>\<open>updated_by\<close> always; it
  returns the rows it changed.
\<close>

definition update_row ::
  "string option \<Rightarrow> string option \<Rightarrow> jv option \<Rightarrow> int option \<Rightarrow> bool option
    \<Rightarrow> int \<Rightarrow> string \<Rightarrow> privacy_rule \<Rightarrow> privacy_rule"
where
  "update_row p_name p_description p_config p_priority p_active now userId r =
     r\<lparr>rule_name := coalesce p_name (rule_name r),
       rule_description :=
         (case p_description of None \<Rightarrow> rule_description r | Some d \<Rightarrow> Some d),
       rule_config := coalesce p_config (rule_config r),
       priority := coalesce p_priority (priority r),
       is_active := coalesce p_active (is_active r),
       updated_at := now,
       updated_by := Some userId\<rparr>"

text \<open>The destructuring of \<^verbatim>\<open>updates\<close> and the five parameters made from it;
  \<^verbatim>\<open>rule_config\<close> is sent only when it is truthy.\<close>

definition update_params ::
  "pg_driver \<Rightarrow> jv
    \<Rightarrow> js_error + (string option \<times> string option \<times> jv option \<times> int option \<times> bool option)"
where
  "update_params pg updates =
     and_then (js_get updates ''rule_name'') (\<lambda>uname.
     and_then (js_get updates ''rule_description'') (\<lambda>udescription.
     and_then (js_get updates ''rule_config'') (\<lambda>uconfig.
     and_then (js_get updates ''priority'') (\<lambda>upriority.
     and_then (js_get updates ''is_active'') (\<lambda>uactive.
     and_then (sql_param (pg_text pg ''rule_name'') uname) (\<lambda>p_name.
     and_then (sql_param (pg_text pg ''rule_description'') udescription) (\<lambda>p_description.
     and_then (sql_param (pg_jsonb pg ''rule_config'')
                 (if truthy uconfig then uconfig else JNull)) (\<lambda>p_config.
     and_then (sql_param (pg_integer pg ''priority'') upriority) (\<lambda>p_priority.
     and_then (sql_param (pg_boolean pg ''is_active'') uactive) (\<lambda>p_active.
       Inr (p_name, p_description, p_config, p_priority, p_active)))))))))))"

definition updateRule ::
  "pg_driver \<Rightarrow> database \<Rightarrow> int \<Rightarrow> bool \<Rightarrow> bool \<Rightarrow> string \<Rightarrow> jv \<Rightarrow> string
    \<Rightarrow> string option \<Rightarrow> string option \<Rightarrow> (js_error + privacy_rule) \<times> database"
where
  "updateRule pg db now update_fails audit_fails ruleId updates userId ipAddress userAgent =
     (case and_then (update_params pg updates)
             (\<lambda>(p_name, p_description, p_config, p_priority, p_active).
                if update_fails then Inl DbError
                else
                  (let hit = (\<lambda>r. rule_id r = ruleId \<and> user_id r = userId);
                       upd = update_row p_name p_description p_config p_priority p_active
                               now userId
                   in Inr (map upd (filter hit (privacy_rules db)),
                           db\<lparr>privacy_rules :=
                                map (\<lambda>r. if hit r then upd r else r) (privacy_rules db)\<rparr>))) of
        Inl error \<Rightarrow> (Inl error, db)
      | Inr ([], db1) \<Rightarrow> (Inl (Error ''Rule not found or access denied''), db1)
      | Inr (row # rows, db1) \<Rightarrow>
          (case logAudit db1 now audit_fails ruleId ''UPDATE'' userId (Updates updates)
                  ipAddress userAgent of
             (Inl error, db2) \<Rightarrow> (Inl error, db2)
           | (Inr u, db2) \<Rightarrow> (Inr row, db2)))"

text \<open>\<^verbatim>\<open>deleteRule\<close>: the DELETE removes and returns the rows with this id and owner.\<close>

definition deleteRule ::
  "database \<Rightarrow> int \<Rightarrow> bool \<Rightarrow> bool \<Rightarrow> string \<Rightarrow> string
    \<Rightarrow> string option \<Rightarrow> string option \<Rightarrow> (js_error + privacy_rule) \<times> database"
where
  "deleteRule db now delete_fails audit_fails ruleId userId ipAddress userAgent =
     (if delete_fails then (Inl DbError, db)
      else
        (let hit = (\<lambda>r. rule_id r = ruleId \<and> user_id r = userId);
             db1 = db\<lparr>privacy_rules := filter (\<lambda>r. \<not> hit r) (privacy_rules db)\<rparr>
         in case filter hit (privacy_rules db) of
              [] \<Rightarrow> (Inl (Error ''Rule not found or access denied''), db1)
            | row # rows \<Rightarrow>
                (case logAudit db1 now audit_fails ruleId ''DELETE'' userId (Deleted_rule row)
                        ipAddress userAgent of
                   (Inl error, db2) \<Rightarrow> (Inl error, db2)
                 | (Inr u, db2) \<Rightarrow> (Inr row, db2))))"

subsection \<open>All rules of an owner\<close>

text \<open>One entry of \<^verbatim>\<open>rule_evaluations\<close>; \<open>eval_error\<close> is the \<^verbatim>\<open>error\<close> field the
  \<^verbatim>\<open>catch\<close> of the loop adds.\<close>

record rule_evaluation =
  eval_rule_id :: string
  eval_rule_name :: string
  eval_rule_type :: string
  eval_action :: jv
  eval_reason :: string
  eval_matched :: bool
  eval_error :: "js_error option"

record evaluation_report =
  final_action :: string
  rule_evaluations :: "rule_evaluation list"
  blocking_rules :: "rule_evaluation list"

text \<open>The body of the \<^verbatim>\<open>for\<close> loop of \<^verbatim>\<open>evaluateRules\<close>: the entry it pushes for one
  rule, from the evaluation, or from the error in the \<^verbatim>\<open>catch\<close>.\<close>

definition rule_entry :: "js_runtime \<Rightarrow> jv \<Rightarrow> privacy_rule \<Rightarrow> rule_evaluation" where
  "rule_entry rt message rule =
     (case evaluateRule rt rule message of
        Inr evaluation \<Rightarrow>
          \<lparr>eval_rule_id = rule_id rule, eval_rule_name = rule_name rule,
           eval_rule_type = rule_type rule, eval_action = action evaluation,
           eval_reason = reason evaluation, eval_matched = matched evaluation,
           eval_error = None\<rparr>
      | Inl error \<Rightarrow>
          \<lparr>eval_rule_id = rule_id rule, eval_rule_name = rule_name rule,
           eval_rule_type = rule_type rule, eval_action = JStr ''allow'',
           eval_reason = ''Rule evaluation failed'', eval_matched = False,
           eval_error = Some error\<rparr>)"

text \<open>The loop, \<^verbatim>\<open>results\<close> as accumulator.\<close>

fun evaluate_loop ::
  "js_runtime \<Rightarrow> jv \<Rightarrow> privacy_rule list \<Rightarrow> rule_evaluation list \<Rightarrow> rule_evaluation list"
where
  "evaluate_loop rt message [] results = results"
| "evaluate_loop rt message (rule # rules) results =
     evaluate_loop rt message rules (results @ [rule_entry rt message rule])"

definition evaluateRules ::
  "js_runtime \<Rightarrow> database \<Rightarrow> bool \<Rightarrow> jv \<Rightarrow> string \<Rightarrow> js_error + evaluation_report"
where
  "evaluateRules rt db select_fails message userId =
     and_then (getUserRules db select_fails userId
                 \<lparr>filter_rule_type = None, filter_is_active = Some True\<rparr>) (\<lambda>rules.
       let results = evaluate_loop rt message rules [];
           blockingRules = filter (\<lambda>r. eval_action r = JStr ''block'' \<and> eval_matched r) results;
           finalAction = (if length blockingRules > 0 then ''block'' else ''allow'')
       in Inr \<lparr>final_action = finalAction, rule_evaluations = results,
               blocking_rules = blockingRules\<rparr>)"

subsection \<open>Rules from templates\<close>

text \<open>The own enumerable properties a spread copies: the bindings of an object, the
  indexed elements of an array or a string, nothing of any other value.\<close>

fun own_entries :: "jv \<Rightarrow> (string \<times> jv) list" where
  "own_entries (JObj kvs) = kvs"
| "own_entries (JArr xs) = zip (map show_nat [0..<length xs]) xs"
| "own_entries (JStr s) = zip (map show_nat [0..<length s]) (map (\<lambda>c. JStr [c]) s)"
| "own_entries v = []"

text \<open>\<^verbatim>\<open>{ ...a, ...b }\<close>\<close>

definition spread2 :: "jv \<Rightarrow> jv \<Rightarrow> jv" where
  "spread2 a b = JObj (own_entries a @ own_entries b)"

text \<open>
  \<^verbatim>\<open>createRuleFromTemplate\<close>. \<open>customizations0\<close> is the argument as passed, with the
  default \<^verbatim>\<open>{}\<close> for \<^verbatim>\<open>undefined\<close>. \<^verbatim>\<open>createRule\<close> is called with two arguments: the
  address and the user agent are \<^verbatim>\<open>undefined\<close>.
\<close>

definition createRuleFromTemplate ::
  "pg_driver \<Rightarrow> database \<Rightarrow> int \<Rightarrow> string \<Rightarrow> bool \<Rightarrow> bool \<Rightarrow> bool \<Rightarrow> string \<Rightarrow> string \<Rightarrow> jv
    \<Rightarrow> (js_error + privacy_rule) \<times> database"
where
  "createRuleFromTemplate pg db now ruleId select_fails insert_fails audit_fails
      templateId userId customizations0 =
     (let customizations = (if customizations0 = JUndefined then JObj [] else customizations0)
      in if select_fails then (Inl DbError, db)
         else
           (case filter (\<lambda>t. template_id t = templateId \<and> is_public t) (rule_templates db) of
              [] \<Rightarrow> (Inl (Error ''Template not found''), db)
            | template # others \<Rightarrow>
                (let ruleConfig = spread2 (template_config template) customizations
                 in case and_then (js_get (template_config template) ''rule_type'') (\<lambda>ttype.
                         and_then (js_get customizations ''rule_name'') (\<lambda>cname.
                         and_then (js_get customizations ''rule_description'') (\<lambda>cdescription.
                         and_then (js_get customizations ''priority'') (\<lambda>cpriority.
                           Inr (JObj
                             [(''rule_type'', js_or ttype (JStr ''custom'')),
                              (''rule_name'', js_or cname (JStr (template_name template))),
                              (''rule_description'',
                                 js_or cdescription
                                   (case template_description template of
                                      None \<Rightarrow> JNull | Some d \<Rightarrow> JStr d)),
                              (''rule_config'', ruleConfig),
                              (''priority'', js_or cpriority (JNum 1))]))))) of
                      Inl error \<Rightarrow> (Inl error, db)
                    | Inr ruleData \<Rightarrow>
                        createRule pg db now ruleId insert_fails audit_fails ruleData userId
                          None None)))"

section \<open>A runtime and a driver for worked examples\<close>

text \<open>
  \<open>count_literal p s\<close>: the matches a global search for the non-empty literal text \<open>p\<close>
  finds in \<open>s\<close>, left to right, each search starting where the last match ended.
\<close>

fun count_literal :: "string \<Rightarrow> string \<Rightarrow> nat" where
  "count_literal p [] = 0"
| "count_literal [] (c # cs) = 0"
| "count_literal (q # qs) (c # cs) =
     (if startsWith (c # cs) (q # qs)
      then Suc (count_literal (q # qs) (drop (length qs) cs))
      else count_literal (q # qs) cs)"

definition is_alnum_or_blank :: "char \<Rightarrow> bool" where
  "is_alnum_or_blank c =
     (let n = (of_char c :: nat)
      in (48 \<le> n \<and> n \<le> 57) \<or> (65 \<le> n \<and> n \<le> 90) \<or> (97 \<le> n \<and> n \<le> 122) \<or> n = 32)"

text \<open>The host of a URL of the plain shape \<^verbatim>\<open>scheme://host/path\<close>: what stands between
  \<^verbatim>\<open>://\<close> and the next slash.\<close>

definition plain_host :: "string \<Rightarrow> string option" where
  "plain_host u =
     (if startsWith u ''https://'' then Some (takeWhile (\<lambda>c. c \<noteq> CHR ''/'') (drop 8 u))
      else if startsWith u ''http://'' then Some (takeWhile (\<lambda>c. c \<noteq> CHR ''/'') (drop 7 u))
      else None)"

text \<open>
  \<open>literal_runtime\<close> is a runtime for the examples: its regular expressions are the
  non-empty patterns of ASCII letters, digits and blanks, each of which matches its own
  text (under \<^verbatim>\<open>gi\<close> in any case) as it does in JavaScript; it rejects every other
  pattern, as JavaScript rejects \<^verbatim>\<open>(\<close>. Its URL parser reads plain lower-case URLs
  without port or credentials. The examples convert no number: it prints the integral
  part of a number that is not negative and reads every string as NaN.
\<close>

definition literal_runtime :: js_runtime where
  "literal_runtime =
     \<lparr>regexp_valid = (\<lambda>p. p \<noteq> [] \<and> list_all is_alnum_or_blank p),
      regexp_count_gi = (\<lambda>p s. count_literal (toLowerCase p) (toLowerCase s)),
      regexp_test = (\<lambda>p s. str_includes s p),
      url_hostname = plain_host,
      number_to_string = (\<lambda>q. show_nat (nat \<lfloor>q\<rfloor>)),
      string_to_number = (\<lambda>s. None)\<rparr>"

text \<open>
  \<open>strict_driver\<close> is a server that takes a string for a text column, an integral
  number for an integer column, a boolean for a boolean column and any value for a
  JSONB column, which it returns unchanged.
\<close>

definition strict_driver :: pg_driver where
  "strict_driver =
     \<lparr>pg_text = (\<lambda>col v. case v of JStr s \<Rightarrow> Some s | _ \<Rightarrow> None),
      pg_integer = (\<lambda>col v. case v of
                       JNum q \<Rightarrow> if q = of_int \<lfloor>q\<rfloor> then Some \<lfloor>q\<rfloor> else None
                     | _ \<Rightarrow> None),
      pg_boolean = (\<lambda>col v. case v of JBool b \<Rightarrow> Some b | _ \<Rightarrow> None),
      pg_jsonb = (\<lambda>col v. Some v)\<rparr>"

text \<open>
  \<open>token_runtime\<close> is a second runtime for the examples, with escapes and ranges. Its
  regular expressions are the non-empty sequences of: a letter, digit or blank, which
  matches itself; one of the class escapes \<^verbatim>\<open>\s \S \d \D \w \W\<close>; a range \<^verbatim>\<open>[a-b]\<close> of two
  letters, digits or blanks, which is a syntax error when \<open>b\<close> is below \<open>a\<close>. Each
  matches one character, as in JavaScript; under the flag \<^verbatim>\<open>i\<close> a letter and a range
  match in either case. Every other pattern is rejected.
\<close>

datatype token = Lit char | Cls char | Span char char

fun parse_pattern :: "string \<Rightarrow> token list option" where
  "parse_pattern [] = Some []"
| "parse_pattern (c # cs) =
     (if c = CHR 0x5C then
        (case cs of
           e # rest \<Rightarrow>
             if e \<in> set ''sSdDwW'' then map_option (Cons (Cls e)) (parse_pattern rest) else None
         | [] \<Rightarrow> None)
      else if c = CHR ''['' then
        (case cs of
           a # m # b # r # rest \<Rightarrow>
             if m = CHR ''-'' \<and> r = CHR '']'' \<and> is_alnum_or_blank a \<and> is_alnum_or_blank b
                \<and> (of_char a :: int) \<le> of_char b
             then map_option (Cons (Span a b)) (parse_pattern rest) else None
         | _ \<Rightarrow> None)
      else if is_alnum_or_blank c then map_option (Cons (Lit c)) (parse_pattern cs)
      else None)"

definition is_digit :: "char \<Rightarrow> bool" where
  "is_digit c = (let n = (of_char c :: int) in 48 \<le> n \<and> n \<le> 57)"

definition is_word_char :: "char \<Rightarrow> bool" where
  "is_word_char c =
     (let n = (of_char c :: int)
      in (48 \<le> n \<and> n \<le> 57) \<or> (65 \<le> n \<and> n \<le> 90) \<or> (97 \<le> n \<and> n \<le> 122) \<or> n = 95)"

definition in_span :: "char \<Rightarrow> char \<Rightarrow> char \<Rightarrow> bool" where
  "in_span a b c = ((of_char a :: int) \<le> of_char c \<and> (of_char c :: int) \<le> of_char b)"

text \<open>The capital of an ASCII letter.\<close>

definition upper_char :: "char \<Rightarrow> char" where
  "upper_char c =
     (let n = (of_char c :: nat) in if 97 \<le> n \<and> n \<le> 122 then char_of (n - 32) else c)"

text \<open>Whether a token matches a character; \<open>ic\<close> is the flag \<^verbatim>\<open>i\<close>, under which a
  range matches a character when it holds the character in either case.\<close>

fun token_matches :: "bool \<Rightarrow> token \<Rightarrow> char \<Rightarrow> bool" where
  "token_matches ic (Lit q) c = (if ic then lower_char c = lower_char q else c = q)"
| "token_matches ic (Cls e) c =
     (if e = CHR ''s'' then is_space c
      else if e = CHR ''S'' then \<not> is_space c
      else if e = CHR ''d'' then is_digit c
      else if e = CHR ''D'' then \<not> is_digit c
      else if e = CHR ''w'' then is_word_char c
      else \<not> is_word_char c)"
| "token_matches ic (Span a b) c =
     (in_span a b c \<or> ic \<and> (in_span a b (lower_char c) \<or> in_span a b (upper_char c)))"

fun match_here :: "bool \<Rightarrow> token list \<Rightarrow> string \<Rightarrow> bool" where
  "match_here ic [] s = True"
| "match_here ic (t # ts) [] = False"
| "match_here ic (t # ts) (c # cs) = (token_matches ic t c \<and> match_here ic ts cs)"

text \<open>The matches of a global search, each search starting where the last match ended.\<close>

fun count_matches :: "bool \<Rightarrow> token list \<Rightarrow> string \<Rightarrow> nat" where
  "count_matches ic ts [] = 0"
| "count_matches ic [] (c # cs) = 0"
| "count_matches ic (t # ts) (c # cs) =
     (if match_here ic (t # ts) (c # cs)
      then Suc (count_matches ic (t # ts) (drop (length ts) cs))
      else count_matches ic (t # ts) cs)"

fun find_match :: "token list \<Rightarrow> string \<Rightarrow> bool" where
  "find_match ts [] = match_here False ts []"
| "find_match ts (c # cs) = (match_here False ts (c # cs) \<or> find_match ts cs)"

text \<open>
  The host of \<^verbatim>\<open>http(s)://host[:port]\<close> followed by a path, a query or a fragment, for
  a host of lower-case letters, digits, dots and hyphens. As in the URL parser, a port
  that is not a decimal number or is above 65535 is a failure.
\<close>

definition is_host_char :: "char \<Rightarrow> bool" where
  "is_host_char c =
     (let n = (of_char c :: int)
      in (48 \<le> n \<and> n \<le> 57) \<or> (97 \<le> n \<and> n \<le> 122) \<or> n = 45 \<or> n = 46)"

definition decimal :: "string \<Rightarrow> int" where
  "decimal digits = foldl (\<lambda>n c. 10 * n + (of_char c - 48)) 0 digits"

definition authority_host :: "string \<Rightarrow> string option" where
  "authority_host u =
     (let n = (if startsWith u ''https://'' then 8
               else if startsWith u ''http://'' then 7 else 0);
          authority = takeWhile (\<lambda>c. c \<notin> set ''/?#'') (drop n u);
          host = takeWhile (\<lambda>c. c \<noteq> CHR '':'') authority;
          port = drop (Suc (length host)) authority
      in if n = 0 \<or> host = [] \<or> \<not> list_all is_host_char host
            \<or> \<not> list_all is_digit port \<or> decimal port > 65535
         then None else Some host)"

definition token_runtime :: js_runtime where
  "token_runtime =
     \<lparr>regexp_valid = (\<lambda>p. p \<noteq> [] \<and> parse_pattern p \<noteq> None),
      regexp_count_gi =
        (\<lambda>p s. case parse_pattern p of Some ts \<Rightarrow> count_matches True ts s | None \<Rightarrow> 0),
      regexp_test =
        (\<lambda>p s. case parse_pattern p of Some ts \<Rightarrow> find_match ts s | None \<Rightarrow> False),
      url_hostname = authority_host,
      number_to_string = (\<lambda>q. show_nat (nat \<lfloor>q\<rfloor>)),
      string_to_number = (\<lambda>s. None)\<rparr>"

section \<open>The evaluators as the specification words them\<close>

subsection \<open>Keywords\<close>

text \<open>The case-insensitive occurrences of one keyword in the text: the matches of the
  keyword, compiled with the flags \<^verbatim>\<open>gi\<close>.\<close>

definition keyword_occurrences :: "js_runtime \<Rightarrow> string \<Rightarrow> string \<Rightarrow> nat" where
  "keyword_occurrences rt text k = regexp_count_gi rt k text"

text \<open>The matches of the keyword's lower-cased text, compiled with the flags \<^verbatim>\<open>gi\<close>.\<close>

definition lowered_occurrences :: "js_runtime \<Rightarrow> string \<Rightarrow> string \<Rightarrow> nat" where
  "lowered_occurrences rt text k = regexp_count_gi rt (toLowerCase k) text"

text \<open>
  The keyword filter of the specification, over a way \<open>counting\<close> of counting one keyword:
  count each keyword, sum the counts, match when the sum reaches \<open>max_occurrences\<close>;
  the action is the configured one on a match and \<^verbatim>\<open>allow\<close> otherwise; the reason of a
  match lists the count and the keywords that occur.
\<close>

definition keyword_filter_by :: "(string \<Rightarrow> nat) \<Rightarrow> string list \<Rightarrow> rat \<Rightarrow> jv \<Rightarrow> evaluation" where
  "keyword_filter_by counting keywords max_occurrences act =
     (let total = sum_list (map counting keywords);
          found = filter (\<lambda>k. counting k > 0) keywords;
          hit = (max_occurrences \<le> of_nat total)
      in \<lparr>action = (if hit then act else JStr ''allow''),
          reason = (if hit
                    then ''Matched '' @ show_nat total @ '' keywords: '' @ join '', '' found
                    else ''No keyword matches''),
          matched = hit\<rparr>)"

text \<open>As the claim states it: the occurrences of the keywords are counted.\<close>

definition keyword_filter_spec ::
  "js_runtime \<Rightarrow> string list \<Rightarrow> rat \<Rightarrow> jv \<Rightarrow> string \<Rightarrow> evaluation"
where
  "keyword_filter_spec rt keywords max_occurrences act text =
     keyword_filter_by (keyword_occurrences rt text) keywords max_occurrences act"

text \<open>As amended: the matches of the lower-cased keywords are counted.\<close>

definition keyword_filter_lowered ::
  "js_runtime \<Rightarrow> string list \<Rightarrow> rat \<Rightarrow> jv \<Rightarrow> string \<Rightarrow> evaluation"
where
  "keyword_filter_lowered rt keywords max_occurrences act text =
     keyword_filter_by (lowered_occurrences rt text) keywords max_occurrences act"

subsection \<open>URLs\<close>

text \<open>
  The URLs of a text, in the specification's words: the substrings that start with
  \<^verbatim>\<open>http://\<close> or \<^verbatim>\<open>https://\<close> and run to the next white space. The text is cut at
  its white space into words; a word holds a URL when some suffix of it starts with a
  scheme and goes on after it, and the URL is the longest such suffix.
\<close>

fun words_from :: "string \<Rightarrow> string \<Rightarrow> string list" where
  "words_from word [] = [word]"
| "words_from word (c # cs) =
     (if is_space c then word # words_from [] cs else words_from (word @ [c]) cs)"

definition starts_url :: "string \<Rightarrow> bool" where
  "starts_url w =
     (startsWith w ''https://'' \<and> length w > 8 \<or> startsWith w ''http://'' \<and> length w > 7)"

fun url_in_word :: "string \<Rightarrow> string option" where
  "url_in_word [] = None"
| "url_in_word (c # cs) = (if starts_url (c # cs) then Some (c # cs) else url_in_word cs)"

definition spec_urls :: "string \<Rightarrow> string list" where
  "spec_urls text = List.map_filter url_in_word (words_from [] text)"

text \<open>
  The URL filter of the specification on the URLs in order, over what \<open>subject\<close> gives
  of a URL to look for the listed domains in (nothing when it gives \<open>None\<close>): a URL
  whose subject contains a listed domain allows at once; else the first pattern that
  matches the URL decides with the configured action; else the next URL; with no URL
  left, allow.
\<close>

fun url_filter_by ::
  "js_runtime \<Rightarrow> (string \<Rightarrow> string option) \<Rightarrow> jv list \<Rightarrow> jv list \<Rightarrow> jv \<Rightarrow> string list
    \<Rightarrow> evaluation"
where
  "url_filter_by rt subject domains patterns act [] =
     \<lparr>action = JStr ''allow'', reason = ''No URL restrictions matched'', matched = False\<rparr>"
| "url_filter_by rt subject domains patterns act (url # urls) =
     (case (case subject url of
              None \<Rightarrow> None
            | Some s \<Rightarrow>
                if \<exists>domain \<in> set domains. str_includes s (to_string rt domain)
                then Some s else None) of
        Some s \<Rightarrow>
          \<lparr>action = JStr ''allow'', reason = ''Domain allowed: '' @ s, matched = False\<rparr>
      | None \<Rightarrow>
          (case find (\<lambda>pattern. regexp_test rt (pattern_source rt pattern) url) patterns of
             Some pattern \<Rightarrow>
               \<lparr>action = act,
                reason = ''URL matched pattern: '' @ to_string rt pattern, matched = True\<rparr>
           | None \<Rightarrow> url_filter_by rt subject domains patterns act urls))"

text \<open>As the claim states it: the domains are looked for in the URL's host.\<close>

definition url_filter_spec ::
  "js_runtime \<Rightarrow> jv list \<Rightarrow> jv list \<Rightarrow> jv \<Rightarrow> string \<Rightarrow> evaluation"
where
  "url_filter_spec rt domains patterns act text =
     (if spec_urls text = []
      then \<lparr>action = JStr ''allow'', reason = ''No URLs found'', matched = False\<rparr>
      else url_filter_by rt (url_hostname rt) domains patterns act (spec_urls text))"

text \<open>As amended: the domains are looked for in the URL's host, and in the URL itself
  when it does not parse.\<close>

definition url_filter_amended ::
  "js_runtime \<Rightarrow> jv list \<Rightarrow> jv list \<Rightarrow> jv \<Rightarrow> string \<Rightarrow> evaluation"
where
  "url_filter_amended rt domains patterns act text =
     (if spec_urls text = []
      then \<lparr>action = JStr ''allow'', reason = ''No URLs found'', matched = False\<rparr>
      else url_filter_by rt
             (\<lambda>url. Some (case url_hostname rt url of Some host \<Rightarrow> host | None \<Rightarrow> url))
             domains patterns act (spec_urls text))"

text \<open>A message mentions a word when the word occurs in it, in any case.\<close>

definition mentions :: "string \<Rightarrow> string \<Rightarrow> bool" where
  "mentions message word = str_includes (toLowerCase message) word"

text \<open>A row for the examples: a rule of the given type and configuration.\<close>

definition sample_rule :: "string \<Rightarrow> jv \<Rightarrow> privacy_rule" where
  "sample_rule t config =
     \<lparr>rule_id = ''rule-1'', user_id = ''user-001'', rule_type = t, rule_name = ''Sample'',
      rule_description = None, rule_config = config, priority = 1, is_active = True,
      created_at = 0, updated_at = 0, created_by = Some ''user-001'', updated_by = None\<rparr>"

text \<open>A store for the examples. The owner \<^verbatim>\<open>test-user\<close> has an active keyword rule
  with the action \<^verbatim>\<open>flag\<close>, an active URL rule that blocks and an inactive keyword rule
  that would block; \<^verbatim>\<open>user-002\<close> has one rule. One public template.\<close>

definition example_db :: database where
  "example_db =
     \<lparr>privacy_rules =
        [\<lparr>rule_id = ''r-url'', user_id = ''test-user'', rule_type = ''url_filter'',
          rule_name = ''Block Suspicious URLs'', rule_description = None,
          rule_config = JObj [(''patterns'', JArr [JStr ''tinyurl'']), (''action'', JStr ''block'')],
          priority = 1, is_active = True, created_at = 10, updated_at = 10,
          created_by = Some ''test-user'', updated_by = None\<rparr>,
         \<lparr>rule_id = ''r-other'', user_id = ''user-002'', rule_type = ''keyword_filter'',
          rule_name = ''Block Offensive Language'', rule_description = None,
          rule_config = JObj [(''keywords'', JArr [JStr ''test'']), (''action'', JStr ''block'')],
          priority = 3, is_active = True, created_at = 11, updated_at = 11,
          created_by = Some ''user-002'', updated_by = None\<rparr>,
         \<lparr>rule_id = ''r-off'', user_id = ''test-user'', rule_type = ''keyword_filter'',
          rule_name = ''Disabled'', rule_description = None,
          rule_config = JObj [(''keywords'', JArr [JStr ''test'']), (''action'', JStr ''block'')],
          priority = 9, is_active = False, created_at = 12, updated_at = 12,
          created_by = Some ''test-user'', updated_by = None\<rparr>,
         \<lparr>rule_id = ''r-flag'', user_id = ''test-user'', rule_type = ''keyword_filter'',
          rule_name = ''Test Rule'', rule_description = Some ''A test rule for development'',
          rule_config = JObj [(''keywords'', JArr [JStr ''test'', JStr ''debug'', JStr ''development'']),
                              (''max_occurrences'', JNum 1), (''action'', JStr ''flag'')],
          priority = 5, is_active = True, created_at = 13, updated_at = 13,
          created_by = Some ''test-user'', updated_by = None\<rparr>],
      rule_templates =
        [\<lparr>template_id = ''t-1'', template_name = ''Financial Protection'',
          template_description = Some ''Template to protect against financial scams'',
          template_category = ''financial_security'',
          template_config = JObj [(''rule_type'', JStr ''keyword_filter''),
                                  (''keywords'', JArr [JStr ''lottery'']),
                                  (''action'', JStr ''allow''), (''priority'', JNum 7)],
          is_public = True\<rparr>],
      rule_audit_log = []\<rparr>"

section \<open>Properties of validation\<close>

lemma js_get_total:
  assumes "js_get v k = Inr x"
  shows "\<exists>y. js_get v k' = Inr y"
  using assms by (cases v) auto

lemma validateRule_returns: "\<exists>r. validateRule candidate = Inr r"
  by (simp add: validateRule_def split: sum.split)

lemma keywords_message_mentions:
  "mentions ''Keywords array is required for keyword_filter rule type'' ''keywords''"
  by code_simp

text \<open>
  C6, as the code has it. \<^verbatim>\<open>validateRule\<close> never throws. For a candidate of type
  \<^verbatim>\<open>keyword_filter\<close> that has a configuration (one whose properties can be read) in
  which \<^verbatim>\<open>keywords\<close> is absent or is not an array, the result is invalid and its errors
  hold the message about the keywords array. An empty array is not covered: the check
  is \<^verbatim>\<open>!keywords || !Array.isArray(keywords)\<close>, and \<^verbatim>\<open>[]\<close> passes it.
\<close>

theorem validateRule_keywords:
  "(\<exists>r. validateRule candidate = Inr r) \<and>
   (js_get candidate ''rule_type'' = Inr (JStr ''keyword_filter'') \<longrightarrow>
    js_get candidate ''rule_config'' = Inr config \<longrightarrow>
    js_get config ''keywords'' = Inr keywords \<longrightarrow>
    \<not> isArray keywords \<longrightarrow>
    (\<exists>r. validateRule candidate = Inr r \<and> \<not> isValid r \<and>
         ''Keywords array is required for keyword_filter rule type'' \<in> set (errors r) \<and>
         (\<exists>e \<in> set (errors r). mentions e ''keywords'')))"
proof (intro conjI impI)
  show "\<exists>r. validateRule candidate = Inr r" by (rule validateRule_returns)
next
  assume rt: "js_get candidate ''rule_type'' = Inr (JStr ''keyword_filter'')"
     and rc: "js_get candidate ''rule_config'' = Inr config"
     and kw: "js_get config ''keywords'' = Inr keywords"
     and na: "\<not> isArray keywords"
  from rt obtain n where n: "js_get candidate ''rule_name'' = Inr n"
    using js_get_total by blast
  define es where "es = (if \<not> truthy n then [''Rule name is required''] else [])
       @ (if \<not> truthy config then [''Rule configuration is required''] else [])
       @ [''Keywords array is required for keyword_filter rule type'']"
  have "validateRule_try candidate = Inr \<lparr>isValid = False, errors = es\<rparr>"
    unfolding validateRule_try_def es_def by (simp add: rt n rc kw na Let_def)
  then have v: "validateRule candidate = Inr \<lparr>isValid = False, errors = es\<rparr>"
    by (simp add: validateRule_def)
  have m: "''Keywords array is required for keyword_filter rule type'' \<in> set es"
    by (simp add: es_def)
  with keywords_message_mentions have "\<exists>e \<in> set es. mentions e ''keywords''" by blast
  with v m show "\<exists>r. validateRule candidate = Inr r \<and> \<not> isValid r \<and>
         ''Keywords array is required for keyword_filter rule type'' \<in> set (errors r) \<and>
         (\<exists>e \<in> set (errors r). mentions e ''keywords'')" by simp
qed

text \<open>The theorem at a candidate whose \<^verbatim>\<open>keywords\<close> is the string \<^verbatim>\<open>spam\<close>, not an array.\<close>

theorem validateRule_keywords_witness:
  "\<exists>r. validateRule (JObj [(''rule_type'', JStr ''keyword_filter''), (''rule_name'', JStr ''spam''),
                           (''rule_config'', JObj [(''keywords'', JStr ''spam'')])]) = Inr r
       \<and> \<not> isValid r
       \<and> ''Keywords array is required for keyword_filter rule type'' \<in> set (errors r)
       \<and> (\<exists>e \<in> set (errors r). mentions e ''keywords'')"
  using validateRule_keywords
          [of "JObj [(''rule_type'', JStr ''keyword_filter''), (''rule_name'', JStr ''spam''),
                     (''rule_config'', JObj [(''keywords'', JStr ''spam'')])]"
              "JObj [(''keywords'', JStr ''spam'')]" "JStr ''spam''"]
  by simp

text \<open>C6 as stated fails on the empty sequence: a \<^verbatim>\<open>keyword_filter\<close> candidate whose
  \<^verbatim>\<open>keywords\<close> is \<^verbatim>\<open>[]\<close> is valid, with no error.\<close>

theorem validateRule_empty_keywords_counterexample:
  "js_get (JObj [(''keywords'', JArr [])]) ''keywords'' = Inr (JArr []) \<and>
   validateRule (JObj [(''rule_type'', JStr ''keyword_filter''), (''rule_name'', JStr ''spam''),
                       (''rule_config'', JObj [(''keywords'', JArr [])])]) =
     Inr \<lparr>isValid = True, errors = []\<rparr>"
  by (simp add: validateRule_def validateRule_try_def)

text \<open>
  C10. A candidate whose \<^verbatim>\<open>rule_type\<close> is one of the three filter types and which has
  no \<^verbatim>\<open>rule_config\<close>: the type-specific read throws a TypeError inside the \<^verbatim>\<open>try\<close>,
  and the result is invalid with exactly the one generic error; the errors collected
  before are gone.
\<close>

theorem validateRule_absent_config:
  assumes rt: "js_get candidate ''rule_type'' = Inr (JStr t)"
      and known: "t = ''keyword_filter'' \<or> t = ''url_filter'' \<or> t = ''content_filter''"
      and absent: "js_get candidate ''rule_config'' = Inr JUndefined"
  shows "validateRule_try candidate = Inl TypeError \<and>
         validateRule candidate =
           Inr \<lparr>isValid = False, errors = [''Validation error occurred'']\<rparr>"
proof -
  from rt obtain n where n: "js_get candidate ''rule_name'' = Inr n"
    using js_get_total by blast
  from known have "validateRule_try candidate = Inl TypeError"
    unfolding validateRule_try_def by (auto simp: rt n absent Let_def)
  then show ?thesis by (simp add: validateRule_def)
qed

text \<open>The theorem at a \<^verbatim>\<open>url_filter\<close> candidate that carries a name and no configuration.\<close>

theorem validateRule_absent_config_witness:
  "validateRule (JObj [(''rule_type'', JStr ''url_filter''), (''rule_name'', JStr ''links'')]) =
     Inr \<lparr>isValid = False, errors = [''Validation error occurred'']\<rparr>"
  using validateRule_absent_config
          [of "JObj [(''rule_type'', JStr ''url_filter''), (''rule_name'', JStr ''links'')]"
              "''url_filter''"]
  by simp

section \<open>Properties of rule evaluation\<close>

lemma evaluateRule_returns: "\<exists>ev. evaluateRule rt rule message = Inr ev"
  by (simp add: evaluateRule_def split: sum.split)

text \<open>
  C4. \<^verbatim>\<open>evaluateRule\<close> returns for every rule and every message. A rule whose type
  is none of the three filter types gets \<^verbatim>\<open>allow\<close>, not matched, with the reason
  \<^verbatim>\<open>Unknown rule type\<close>. Whatever the evaluator of a known type throws is caught and
  answered with \<^verbatim>\<open>allow\<close>, not matched, with the reason \<^verbatim>\<open>Evaluation error\<close>.
\<close>

theorem evaluateRule_never_throws:
  "(\<exists>ev. evaluateRule rt rule message = Inr ev) \<and>
   (rule_type rule \<noteq> ''keyword_filter'' \<and> rule_type rule \<noteq> ''url_filter'' \<and>
    rule_type rule \<noteq> ''content_filter'' \<longrightarrow>
      evaluateRule rt rule message =
        Inr \<lparr>action = JStr ''allow'', reason = ''Unknown rule type'', matched = False\<rparr>) \<and>
   (evaluateRule_try rt rule message = Inl e \<longrightarrow>
      evaluateRule rt rule message =
        Inr \<lparr>action = JStr ''allow'', reason = ''Evaluation error'', matched = False\<rparr>)"
  by (simp add: evaluateRule_def evaluateRule_try_def split: sum.split)

text \<open>The theorem at a rule of the unknown type \<^verbatim>\<open>custom\<close>, and at a \<^verbatim>\<open>keyword_filter\<close>
  rule whose configuration is \<^verbatim>\<open>null\<close>, where the evaluator throws a TypeError.\<close>

theorem evaluateRule_never_throws_witness:
  "evaluateRule literal_runtime (sample_rule ''custom'' (JObj [])) (JObj [(''text'', JStr ''hello'')]) =
     Inr \<lparr>action = JStr ''allow'', reason = ''Unknown rule type'', matched = False\<rparr> \<and>
   evaluateRule_try literal_runtime (sample_rule ''keyword_filter'' JNull) (JObj [(''text'', JStr ''hello'')]) =
     Inl TypeError \<and>
   evaluateRule literal_runtime (sample_rule ''keyword_filter'' JNull) (JObj [(''text'', JStr ''hello'')]) =
     Inr \<lparr>action = JStr ''allow'', reason = ''Evaluation error'', matched = False\<rparr>"
proof -
  have t: "evaluateRule_try literal_runtime (sample_rule ''keyword_filter'' JNull)
             (JObj [(''text'', JStr ''hello'')]) = Inl TypeError"
    by (simp add: evaluateRule_try_def sample_rule_def evaluateKeywordFilter_def)
  from evaluateRule_never_throws
         [of literal_runtime "sample_rule ''custom'' (JObj [])" "JObj [(''text'', JStr ''hello'')]" TypeError]
       evaluateRule_never_throws
         [of literal_runtime "sample_rule ''keyword_filter'' JNull" "JObj [(''text'', JStr ''hello'')]" TypeError]
       t
  show ?thesis by (simp add: sample_rule_def)
qed

lemma keyword_loop_invalid:
  assumes "JStr k \<in> set ks" and "\<not> regexp_valid rt (toLowerCase k)"
  shows "\<exists>e. keyword_loop rt text ks matchCount matchedKeywords = Inl e"
  using assms
proof (induction ks arbitrary: matchCount matchedKeywords)
  case Nil
  then show ?case by simp
next
  case (Cons keyword rest)
  show ?case
  proof (cases keyword)
    case (JStr k')
    show ?thesis
    proof (cases "k' = k")
      case True
      with JStr Cons.prems show ?thesis by simp
    next
      case False
      with JStr Cons.prems have "JStr k \<in> set rest" by simp
      from Cons.IH[OF this Cons.prems(2)] JStr show ?thesis by (simp add: Let_def)
    qed
  qed simp_all
qed

lemma evaluateKeywordFilter_invalid:
  assumes "js_get config ''keywords'' = Inr (JArr ks)"
      and "JStr k \<in> set ks" and "\<not> regexp_valid rt (toLowerCase k)"
  shows "\<exists>e. evaluateKeywordFilter rt config message = Inl e"
proof -
  from assms(1) obtain mo where mo: "js_get config ''max_occurrences'' = Inr mo"
    using js_get_total by blast
  from assms(1) obtain ac where ac: "js_get config ''action'' = Inr ac"
    using js_get_total by blast
  show ?thesis
  proof (cases "message_text message")
    case (Inl e)
    then show ?thesis by (simp add: evaluateKeywordFilter_def assms(1) mo ac)
  next
    case (Inr tval)
    show ?thesis
    proof (cases tval)
      case (JStr s)
      from keyword_loop_invalid[OF assms(2,3)] obtain e
        where "keyword_loop rt s ks 0 [] = Inl e" by blast
      with Inr JStr show ?thesis
        by (simp add: evaluateKeywordFilter_def assms(1) mo ac Let_def)
    qed (insert Inr, simp_all add: evaluateKeywordFilter_def assms(1) mo ac Let_def)
  qed
qed

text \<open>
  C9, as the code has it. The code compiles the lower-cased keyword, so that is the
  text whose validity counts. A \<^verbatim>\<open>keyword_filter\<close> rule with a keyword whose lower-cased
  text does not compile (for \<^verbatim>\<open>(\<close> the keyword and its lower-cased text are the same)
  gets the error fallback for the whole rule, whatever the other keywords and the
  message are.
\<close>

theorem invalid_keyword_disables_rule:
  assumes "rule_type rule = ''keyword_filter''"
      and "js_get (rule_config rule) ''keywords'' = Inr (JArr ks)"
      and "JStr k \<in> set ks"
      and "\<not> regexp_valid rt (toLowerCase k)"
  shows "evaluateRule rt rule message =
           Inr \<lparr>action = JStr ''allow'', reason = ''Evaluation error'', matched = False\<rparr>"
proof -
  from evaluateKeywordFilter_invalid[OF assms(2,3,4)] obtain e
    where "evaluateKeywordFilter rt (rule_config rule) message = Inl e" by blast
  with assms(1) show ?thesis
    by (simp add: evaluateRule_def evaluateRule_try_def)
qed

text \<open>The theorem at the keywords \<^verbatim>\<open>spam\<close> and \<^verbatim>\<open>(\<close> and a text in which \<^verbatim>\<open>spam\<close>
  occurs twice.\<close>

theorem invalid_keyword_disables_rule_witness:
  "evaluateRule literal_runtime
     (sample_rule ''keyword_filter'' (JObj [(''keywords'', JArr [JStr ''spam'', JStr ''(''])]))
     (JObj [(''text'', JStr ''this is spam spam'')]) =
     Inr \<lparr>action = JStr ''allow'', reason = ''Evaluation error'', matched = False\<rparr> \<and>
   regexp_count_gi literal_runtime (toLowerCase ''spam'') ''this is spam spam'' = 2"
proof -
  have inv: "\<not> regexp_valid literal_runtime (toLowerCase ''('')"
    by code_simp
  have cnt: "regexp_count_gi literal_runtime (toLowerCase ''spam'') ''this is spam spam'' = 2"
    by code_simp
  from invalid_keyword_disables_rule
         [of "sample_rule ''keyword_filter'' (JObj [(''keywords'', JArr [JStr ''spam'', JStr ''(''])])"
             "[JStr ''spam'', JStr ''('']" "''(''" literal_runtime
             "JObj [(''text'', JStr ''this is spam spam'')]", OF _ _ _ inv] cnt
  show ?thesis by (simp add: sample_rule_def)
qed

text \<open>
  C9 as stated fails on a keyword that is invalid only as written. \<^verbatim>\<open>[a-Z]\<close> is not a
  regular expression, the range being out of order; its lower-cased text \<^verbatim>\<open>[a-z]\<close> is
  one, and it is what the constructor gets. The rule is evaluated, and blocks the text
  \<^verbatim>\<open>abc\<close> with three matches; the reason names the keyword as written.
\<close>

theorem invalid_keyword_lowered_counterexample:
  "\<not> regexp_valid token_runtime ''[a-Z]'' \<and>
   regexp_valid token_runtime (toLowerCase ''[a-Z]'') \<and>
   evaluateRule token_runtime
     (sample_rule ''keyword_filter'' (JObj [(''keywords'', JArr [JStr ''[a-Z]''])]))
     (JObj [(''text'', JStr ''abc'')]) =
   Inr \<lparr>action = JStr ''block'', reason = ''Matched 3 keywords: [a-Z]'', matched = True\<rparr>"
  by code_simp

lemma keyword_loop_counts:
  assumes "\<forall>k \<in> set ks. regexp_valid rt (toLowerCase k)"
  shows "keyword_loop rt text (map JStr ks) matchCount matchedKeywords =
           Inr (matchCount + sum_list (map (\<lambda>k. regexp_count_gi rt (toLowerCase k) text) ks),
                matchedKeywords @ filter (\<lambda>k. regexp_count_gi rt (toLowerCase k) text > 0) ks)"
  using assms
  by (induction ks arbitrary: matchCount matchedKeywords) (simp_all add: Let_def)

lemma js_ge_numbers: "js_ge rt (JNum a) (JNum b) = (b \<le> a)"
  by (auto simp: js_ge_def js_less_def)

lemma keyword_filter_by_cong:
  assumes "\<forall>k \<in> set keywords. f k = g k"
  shows "keyword_filter_by f keywords m act = keyword_filter_by g keywords m act"
proof -
  from assms have "map f keywords = map g keywords" by simp
  moreover from assms have "filter (\<lambda>k. f k > 0) keywords = filter (\<lambda>k. g k > 0) keywords"
    by (intro filter_cong) simp_all
  ultimately show ?thesis unfolding keyword_filter_by_def by (simp only:)
qed

text \<open>
  C3, as the code has it. For a \<^verbatim>\<open>keyword_filter\<close> configuration whose \<^verbatim>\<open>keywords\<close> are
  strings, whose \<^verbatim>\<open>max_occurrences\<close> is a number or absent (then 1) and whose \<^verbatim>\<open>action\<close>
  may be absent (then \<^verbatim>\<open>block\<close>), and with every lower-cased keyword compiling, the
  evaluator counts for each keyword the matches of its lower-cased text compiled with the
  flags \<^verbatim>\<open>gi\<close>, sums the counts, matches when the sum reaches \<^verbatim>\<open>max_occurrences\<close>, and
  answers with the configured action on a match and \<^verbatim>\<open>allow\<close> otherwise; the reason of
  a match lists the count and the keywords that were found. On keywords for which the
  lower-cased text finds what the keyword itself finds under \<^verbatim>\<open>gi\<close>, this is the filter
  of the specification, which counts the case-insensitive occurrences of the keywords.
\<close>

theorem evaluateKeywordFilter_lowered:
  assumes kw: "js_get config ''keywords'' = Inr (JArr (map JStr keywords))"
      and valid: "\<forall>k \<in> set keywords. regexp_valid rt (toLowerCase k)"
      and mo: "js_get config ''max_occurrences'' = Inr mo"
      and limit: "mo = JUndefined \<and> max_occurrences = 1 \<or> mo = JNum max_occurrences"
      and ac: "js_get config ''action'' = Inr ac"
      and act: "act = (if ac = JUndefined then JStr ''block'' else ac)"
      and tx: "message_text message = Inr (JStr text)"
  shows "evaluateKeywordFilter rt config message =
           Inr (keyword_filter_lowered rt keywords max_occurrences act text) \<and>
         ((\<forall>k \<in> set keywords. lowered_occurrences rt text k = keyword_occurrences rt text k) \<longrightarrow>
            evaluateKeywordFilter rt config message =
              Inr (keyword_filter_spec rt keywords max_occurrences act text))"
proof -
  have m: "(if mo = JUndefined then JNum 1 else mo) = JNum max_occurrences"
    using limit by auto
  have e: "evaluateKeywordFilter rt config message =
           Inr (keyword_filter_lowered rt keywords max_occurrences act text)"
    unfolding evaluateKeywordFilter_def keyword_filter_lowered_def keyword_filter_by_def
              lowered_occurrences_def
    by (simp add: kw mo ac tx m act keyword_loop_counts[OF valid] js_ge_numbers Let_def)
  have "keyword_filter_lowered rt keywords max_occurrences act text =
          keyword_filter_spec rt keywords max_occurrences act text"
    if "\<forall>k \<in> set keywords. lowered_occurrences rt text k = keyword_occurrences rt text k"
    unfolding keyword_filter_lowered_def keyword_filter_spec_def
    by (rule keyword_filter_by_cong[OF that])
  with e show ?thesis by simp
qed

text \<open>The theorem at the example of the specification: the keyword \<^verbatim>\<open>spam\<close>, the limit 1
  and the action \<^verbatim>\<open>block\<close> on \<^verbatim>\<open>this is spam spam\<close> give a match with the count 2. And
  at two keywords with capitals and the defaults, on a message that has \<^verbatim>\<open>content\<close>
  and no \<^verbatim>\<open>text\<close>: the counts 2 and 1 are summed.\<close>

theorem evaluateKeywordFilter_lowered_witness:
  "evaluateKeywordFilter literal_runtime
     (JObj [(''keywords'', JArr [JStr ''spam'']), (''max_occurrences'', JNum 1),
            (''action'', JStr ''block'')])
     (JObj [(''text'', JStr ''this is spam spam'')]) =
   Inr \<lparr>action = JStr ''block'', reason = ''Matched 2 keywords: spam'', matched = True\<rparr> \<and>
   evaluateKeywordFilter token_runtime
     (JObj [(''keywords'', JArr [JStr ''Spam'', JStr ''buy now''])])
     (JObj [(''content'', JStr ''SPAM spam: Buy Now'')]) =
   Inr \<lparr>action = JStr ''block'', reason = ''Matched 3 keywords: Spam, buy now'',
        matched = True\<rparr>"
proof -
  have v1: "\<forall>k \<in> set [''spam'']. regexp_valid literal_runtime (toLowerCase k)"
    by code_simp
  have c1: "\<forall>k \<in> set [''spam''].
              lowered_occurrences literal_runtime ''this is spam spam'' k =
              keyword_occurrences literal_runtime ''this is spam spam'' k"
    by code_simp
  have s1: "keyword_filter_spec literal_runtime [''spam''] 1 (JStr ''block'') ''this is spam spam'' =
             \<lparr>action = JStr ''block'', reason = ''Matched 2 keywords: spam'', matched = True\<rparr>"
    by code_simp
  have v2: "\<forall>k \<in> set [''Spam'', ''buy now'']. regexp_valid token_runtime (toLowerCase k)"
    by code_simp
  have c2: "\<forall>k \<in> set [''Spam'', ''buy now''].
              lowered_occurrences token_runtime ''SPAM spam: Buy Now'' k =
              keyword_occurrences token_runtime ''SPAM spam: Buy Now'' k"
    by code_simp
  have s2: "keyword_filter_spec token_runtime [''Spam'', ''buy now''] 1 (JStr ''block'')
              ''SPAM spam: Buy Now'' =
             \<lparr>action = JStr ''block'', reason = ''Matched 3 keywords: Spam, buy now'',
              matched = True\<rparr>"
    by code_simp
  from evaluateKeywordFilter_lowered
         [of "JObj [(''keywords'', JArr [JStr ''spam'']), (''max_occurrences'', JNum 1),
                    (''action'', JStr ''block'')]"
             "[''spam'']" literal_runtime "JNum 1" 1 "JStr ''block''" "JStr ''block''"
             "JObj [(''text'', JStr ''this is spam spam'')]" "''this is spam spam''",
          OF _ v1] c1 s1
  have w1: "evaluateKeywordFilter literal_runtime
     (JObj [(''keywords'', JArr [JStr ''spam'']), (''max_occurrences'', JNum 1),
            (''action'', JStr ''block'')])
     (JObj [(''text'', JStr ''this is spam spam'')]) =
   Inr \<lparr>action = JStr ''block'', reason = ''Matched 2 keywords: spam'', matched = True\<rparr>"
    by (auto simp: message_text_def)
  from evaluateKeywordFilter_lowered
         [of "JObj [(''keywords'', JArr [JStr ''Spam'', JStr ''buy now''])]"
             "[''Spam'', ''buy now'']" token_runtime JUndefined 1 JUndefined "JStr ''block''"
             "JObj [(''content'', JStr ''SPAM spam: Buy Now'')]" "''SPAM spam: Buy Now''",
          OF _ v2] c2 s2
  have w2: "evaluateKeywordFilter token_runtime
     (JObj [(''keywords'', JArr [JStr ''Spam'', JStr ''buy now''])])
     (JObj [(''content'', JStr ''SPAM spam: Buy Now'')]) =
   Inr \<lparr>action = JStr ''block'', reason = ''Matched 3 keywords: Spam, buy now'',
        matched = True\<rparr>"
    by (auto simp: message_text_def js_or_def)
  from w1 w2 show ?thesis by (rule conjI)
qed

text \<open>
  C3 as stated fails on a keyword with an escape whose case matters. The keyword \<^verbatim>\<open>\S\<close>
  occurs twice in \<^verbatim>\<open>a b\<close>, at the two letters; the code compiles \<^verbatim>\<open>\s\<close>, which finds the
  one blank. With \<^verbatim>\<open>max_occurrences\<close> 2 the code allows the message, and the filter of
  the specification blocks it.
\<close>

theorem evaluateKeywordFilter_escape_counterexample:
  "keyword_occurrences token_runtime ''a b'' [CHR 0x5C, CHR ''S''] = 2 \<and>
   lowered_occurrences token_runtime ''a b'' [CHR 0x5C, CHR ''S''] = 1 \<and>
   evaluateKeywordFilter token_runtime
     (JObj [(''keywords'', JArr [JStr [CHR 0x5C, CHR ''S'']]), (''max_occurrences'', JNum 2)])
     (JObj [(''text'', JStr ''a b'')]) =
   Inr \<lparr>action = JStr ''allow'', reason = ''No keyword matches'', matched = False\<rparr> \<and>
   keyword_filter_spec token_runtime [[CHR 0x5C, CHR ''S'']] 2 (JStr ''block'') ''a b'' =
     \<lparr>action = JStr ''block'',
      reason = ''Matched 2 keywords: '' @ [CHR 0x5C, CHR ''S''], matched = True\<rparr>"
  by code_simp

lemma nonempty_list_array: "nonempty_list rt (JArr xs) = Inr (xs \<noteq> [])"
  by (auto simp: nonempty_list_def js_gt_def js_less_def)

lemma nonempty_list_undefined: "nonempty_list rt JUndefined = Inr False"
  by (simp add: nonempty_list_def)

lemma pattern_loop_find:
  assumes "\<forall>p \<in> set ps. regexp_valid rt (pattern_source rt p)"
  shows "pattern_loop rt url ps =
           Inr (find (\<lambda>p. regexp_test rt (pattern_source rt p) url) ps)"
  using assms by (induction ps) (simp_all add: str_match_def)

lemma startsWith_append:
  assumes "\<forall>c \<in> set p. \<not> is_space c" and "rest = [] \<or> is_space (hd rest)"
  shows "startsWith (w @ rest) p = startsWith w p"
  using assms
proof (induction w p rule: startsWith.induct)
  case (1 s)
  show ?case by simp
next
  case (2 q qs)
  then show ?case by (cases rest) auto
next
  case (3 c cs q qs)
  then show ?case by simp
qed

lemma startsWith_take: "startsWith s p = (take (length p) s = p)"
  by (induction s p rule: startsWith.induct) auto

lemma schemes_exclusive:
  assumes "startsWith w ''https://''"
  shows "\<not> startsWith w ''http://''"
proof
  assume h: "startsWith w ''http://''"
  from assms obtain c1 c2 c3 c4 c5 rest where w: "w = c1 # c2 # c3 # c4 # c5 # rest"
    by (cases w; simp; cases "tl w"; simp; cases "tl (tl w)"; simp;
        cases "tl (tl (tl w))"; simp; cases "tl (tl (tl (tl w)))"; simp)
  from assms h show False unfolding w by simp
qed

lemma startsWith_length: "startsWith w p \<Longrightarrow> length p \<le> length w"
  by (induction w p rule: startsWith.induct) auto

lemma run_then_rest:
  assumes "\<forall>c \<in> set xs. \<not> is_space c" and "rest = [] \<or> is_space (hd rest)"
  shows "takeWhile (\<lambda>c. \<not> is_space c) (xs @ rest) = xs"
    and "dropWhile (\<lambda>c. \<not> is_space c) (xs @ rest) = rest"
  using assms by (cases rest; simp add: takeWhile_append2 dropWhile_append2)+

lemma url_match_at_word:
  assumes w: "\<forall>c \<in> set w. \<not> is_space c" and r: "rest = [] \<or> is_space (hd rest)"
  shows "url_match_at (w @ rest) = (if starts_url w then Some (w, rest) else None)"
proof -
  have ns: "\<forall>c \<in> set ''https://''. \<not> is_space c" "\<forall>c \<in> set ''http://''. \<not> is_space c"
    by (simp_all add: is_space_def)
  note sw = startsWith_append[OF ns(1) r, of w] startsWith_append[OF ns(2) r, of w]
  have tail: "takeWhile (\<lambda>c. \<not> is_space c) (drop n (w @ rest)) = drop n w \<and>
              dropWhile (\<lambda>c. \<not> is_space c) (drop n (w @ rest)) = rest \<and>
              take n (w @ rest) = take n w"
    if "n \<le> length w" for n
  proof -
    from w have "\<forall>c \<in> set (drop n w). \<not> is_space c" by (meson in_set_dropD)
    from run_then_rest[OF this r] that show ?thesis by simp
  qed
  show ?thesis
  proof (cases "startsWith w ''https://''")
    case True
    from startsWith_length[OF True] have l: "8 \<le> length w" by simp
    from True schemes_exclusive have nh: "\<not> startsWith w ''http://''" by blast
    from tail[OF l] True nh l show ?thesis
      by (auto simp: url_match_at_def sw starts_url_def Let_def)
  next
    case False
    show ?thesis
    proof (cases "startsWith w ''http://''")
      case True
      from startsWith_length[OF True] have l: "7 \<le> length w" by simp
      from tail[OF l] True False l show ?thesis
        by (auto simp: url_match_at_def sw starts_url_def Let_def)
    next
      case nh: False
      with False show ?thesis
        by (simp add: url_match_at_def sw starts_url_def Let_def)
    qed
  qed
qed

lemma url_scan_word:
  assumes "\<forall>c \<in> set w. \<not> is_space c" and "rest = [] \<or> is_space (hd rest)"
  shows "url_scan (w @ rest) =
           (case url_in_word w of Some u \<Rightarrow> [u] | None \<Rightarrow> []) @ url_scan rest"
  using assms(1)
proof (induction w)
  case Nil
  show ?case by simp
next
  case (Cons c cs)
  then have cs: "\<forall>c \<in> set cs. \<not> is_space c" by simp
  from url_match_at_word[OF Cons.prems assms(2)]
  have m: "url_match_at (c # cs @ rest) =
             (if starts_url (c # cs) then Some (c # cs, rest) else None)" by simp
  show ?case using m Cons.IH[OF cs] by simp
qed

lemma url_scan_space: "is_space c \<Longrightarrow> url_scan (c # cs) = url_scan cs"
  by (auto simp: url_match_at_def is_space_def)

lemma words_from_scan:
  assumes "\<forall>c \<in> set word. \<not> is_space c"
  shows "List.map_filter url_in_word (words_from word s) = url_scan (word @ s)"
  using assms
proof (induction s arbitrary: word)
  case Nil
  from url_scan_word[OF Nil, of "[]"] show ?case
    by (simp add: List.map_filter_simps split: option.split)
next
  case (Cons c cs)
  show ?case
  proof (cases "is_space c")
    case True
    have sp: "url_scan (c # cs) = url_scan cs" by (rule url_scan_space[OF True])
    from Cons.prems True
    have "url_scan (word @ c # cs) =
            (case url_in_word word of Some u \<Rightarrow> [u] | None \<Rightarrow> []) @ url_scan (c # cs)"
      by (intro url_scan_word) simp_all
    then have "url_scan (word @ c # cs) =
            (case url_in_word word of Some u \<Rightarrow> [u] | None \<Rightarrow> []) @ url_scan cs"
      by (simp only: sp)
    moreover have "List.map_filter url_in_word (words_from [] cs) = url_scan cs"
      using Cons.IH[of "[]"] by simp
    ultimately show ?thesis using True
      by (simp add: List.map_filter_simps split: option.split)
  next
    case False
    with Cons.prems have "\<forall>c \<in> set (word @ [c]). \<not> is_space c" by simp
    from Cons.IH[OF this] False show ?thesis by simp
  qed
qed

lemma url_scan_spec: "url_scan text = spec_urls text"
  using words_from_scan[of "[]" "text"] by (simp add: spec_urls_def)

lemma url_filter_by_cong:
  assumes "\<forall>url \<in> set urls. f url = g url"
  shows "url_filter_by rt f domains patterns act urls =
         url_filter_by rt g domains patterns act urls"
  using assms by (induction urls) (simp_all split: option.split)

lemma url_loop_amended:
  assumes d: "dv = JUndefined \<and> domains = [] \<or> dv = JArr domains"
      and p: "pv = JUndefined \<and> patterns = [] \<or> pv = JArr patterns"
      and valid: "\<forall>p \<in> set patterns. regexp_valid rt (pattern_source rt p)"
  shows "url_loop rt dv pv act urls =
           Inr (url_filter_by rt
                  (\<lambda>url. Some (case url_hostname rt url of Some host \<Rightarrow> host | None \<Rightarrow> url))
                  domains patterns act urls)"
proof (induction urls)
  case Nil
  show ?case by simp
next
  case (Cons url urls)
  show ?case
    using d p Cons.IH pattern_loop_find[OF valid, of url]
    by (auto simp: nonempty_list_array nonempty_list_undefined list_ex_iff extractDomain_def
             split: option.split)
qed

text \<open>
  C2, as the code has it. For a \<^verbatim>\<open>url_filter\<close> configuration whose \<^verbatim>\<open>domains\<close> and
  \<^verbatim>\<open>patterns\<close> are arrays or absent, with patterns that compile and \<^verbatim>\<open>action\<close> possibly
  absent (then \<^verbatim>\<open>block\<close>): a text without URL is allowed; otherwise the URLs are taken
  in order, the first one with a listed domain in its host (in the URL itself, when the
  URL does not parse) allows the message at once, the first one matched by a pattern
  gives the configured action with \<^verbatim>\<open>matched\<close>, and a scan without decision allows. The
  URLs are the ones of the specification: in each run of characters other than white
  space, what starts at the leftmost \<^verbatim>\<open>http://\<close> or \<^verbatim>\<open>https://\<close> that something follows.
  When every URL of the text parses, this is the filter of the specification, which
  looks for the domains in the URL's host.
\<close>

theorem evaluateUrlFilter_amended:
  assumes dv: "js_get config ''domains'' = Inr dv"
      and d: "dv = JUndefined \<and> domains = [] \<or> dv = JArr domains"
      and pv: "js_get config ''patterns'' = Inr pv"
      and p: "pv = JUndefined \<and> patterns = [] \<or> pv = JArr patterns"
      and valid: "\<forall>p \<in> set patterns. regexp_valid rt (pattern_source rt p)"
      and ac: "js_get config ''action'' = Inr ac"
      and act: "act = (if ac = JUndefined then JStr ''block'' else ac)"
      and tx: "message_text message = Inr (JStr text)"
  shows "evaluateUrlFilter rt config message =
           Inr (url_filter_amended rt domains patterns act text) \<and>
         ((\<forall>url \<in> set (spec_urls text). url_hostname rt url \<noteq> None) \<longrightarrow>
            evaluateUrlFilter rt config message =
              Inr (url_filter_spec rt domains patterns act text))"
proof -
  have e: "evaluateUrlFilter rt config message =
             Inr (url_filter_amended rt domains patterns act text)"
    unfolding evaluateUrlFilter_def url_filter_amended_def
    by (simp add: dv pv ac tx act url_loop_amended[OF d p valid] url_scan_spec Let_def)
  have "url_filter_amended rt domains patterns act text =
          url_filter_spec rt domains patterns act text"
    if "\<forall>url \<in> set (spec_urls text). url_hostname rt url \<noteq> None"
  proof -
    from that have "\<forall>url \<in> set (spec_urls text).
        Some (case url_hostname rt url of Some host \<Rightarrow> host | None \<Rightarrow> url) = url_hostname rt url"
      by (auto split: option.split)
    from url_filter_by_cong[OF this] show ?thesis
      by (simp add: url_filter_amended_def url_filter_spec_def)
  qed
  with e show ?thesis by simp
qed

text \<open>The theorem at the example of the specification, the domain \<^verbatim>\<open>trusted.com\<close> and
  the only URL \<^verbatim>\<open>https://trusted.com/x\<close>; at a text whose first URL is allowed by its
  domain although the second matches a pattern, and the same URLs in the other order;
  at texts where the second URL decides, after a tab or a no-break space, once in the
  middle of a word; at a URL that does not parse, where the domain is found in the
  URL itself; at each character of white space between two URLs; and at a text whose
  schemes have nothing after them.\<close>

theorem evaluateUrlFilter_amended_witness:
  "evaluateUrlFilter literal_runtime
     (JObj [(''domains'', JArr [JStr ''trusted.com''])])
     (JObj [(''text'', JStr ''https://trusted.com/x'')]) =
   Inr \<lparr>action = JStr ''allow'', reason = ''Domain allowed: trusted.com'', matched = False\<rparr> \<and>
   evaluateUrlFilter literal_runtime
     (JObj [(''domains'', JArr [JStr ''trusted.com'']), (''patterns'', JArr [JStr ''bit''])])
     (JObj [(''text'', JStr ''see https://trusted.com/x and http://bit.ly/abc'')]) =
   Inr \<lparr>action = JStr ''allow'', reason = ''Domain allowed: trusted.com'', matched = False\<rparr> \<and>
   evaluateUrlFilter literal_runtime
     (JObj [(''domains'', JArr [JStr ''trusted.com'']), (''patterns'', JArr [JStr ''bit''])])
     (JObj [(''text'', JStr ''see http://bit.ly/abc and https://trusted.com/x'')]) =
   Inr \<lparr>action = JStr ''block'', reason = ''URL matched pattern: bit'', matched = True\<rparr> \<and>
   evaluateUrlFilter literal_runtime
     (JObj [(''domains'', JArr [JStr ''trusted.com'']), (''patterns'', JArr [JStr ''bit''])])
     (JObj [(''text'', JStr (''go http://a.org/1'' @ [CHR 0x09] @ ''xhttps://bit.ly/abc''
                             @ [CHR 0x0A] @ ''https://trusted.com/x''))]) =
   Inr \<lparr>action = JStr ''block'', reason = ''URL matched pattern: bit'', matched = True\<rparr> \<and>
   evaluateUrlFilter literal_runtime
     (JObj [(''domains'', JArr [JStr ''trusted.com'']), (''patterns'', JArr [JStr ''bit''])])
     (JObj [(''text'', JStr (''http://a.org/1'' @ [CHR 0xA0] @ ''https://trusted.com/x''))]) =
   Inr \<lparr>action = JStr ''allow'', reason = ''Domain allowed: trusted.com'', matched = False\<rparr> \<and>
   evaluateUrlFilter token_runtime
     (JObj [(''domains'', JArr [JStr ''trusted.com''])])
     (JObj [(''text'', JStr ''http://evil.example:99999/?trusted.com'')]) =
   Inr \<lparr>action = JStr ''allow'',
        reason = ''Domain allowed: http://evil.example:99999/?trusted.com'',
        matched = False\<rparr> \<and>
   list_all
     (\<lambda>sep. evaluateUrlFilter literal_runtime
             (JObj [(''domains'', JArr [JStr ''trusted.com''])])
             (JObj [(''text'', JStr (''http://a.org/1'' @ [sep] @ ''https://trusted.com/x''))]) =
           Inr \<lparr>action = JStr ''allow'', reason = ''Domain allowed: trusted.com'',
                matched = False\<rparr>)
     [CHR 0x09, CHR 0x0A, CHR 0x0B, CHR 0x0C, CHR 0x0D, CHR 0x20, CHR 0xA0] \<and>
   evaluateUrlFilter literal_runtime
     (JObj [(''domains'', JArr [JStr ''trusted.com''])])
     (JObj [(''text'', JStr ''visit http:// or https:// now'')]) =
   Inr \<lparr>action = JStr ''allow'', reason = ''No URLs found'', matched = False\<rparr>"
proof -
  let ?d = "[JStr ''trusted.com'']"
  let ?p = "[JStr ''bit'']"
  let ?c1 = "JObj [(''domains'', JArr ?d)]"
  let ?c2 = "JObj [(''domains'', JArr ?d), (''patterns'', JArr ?p)]"
  let ?t1 = "''https://trusted.com/x''"
  let ?t2 = "''see https://trusted.com/x and http://bit.ly/abc''"
  let ?t3 = "''see http://bit.ly/abc and https://trusted.com/x''"
  let ?t4 = "''go http://a.org/1'' @ [CHR 0x09] @ ''xhttps://bit.ly/abc''
               @ [CHR 0x0A] @ ''https://trusted.com/x''"
  let ?t5 = "''http://a.org/1'' @ [CHR 0xA0] @ ''https://trusted.com/x''"
  let ?t6 = "''http://evil.example:99999/?trusted.com''"
  have v0: "\<forall>p \<in> set []. regexp_valid rt (pattern_source rt p)" for rt
    by simp
  have v1: "\<forall>p \<in> set ?p. regexp_valid literal_runtime (pattern_source literal_runtime p)"
    by code_simp
  have tx: "message_text (JObj [(''text'', JStr t)]) = Inr (JStr t)" if "t \<noteq> []" for t
    using that by (simp add: message_text_def)
  have s1: "url_filter_amended literal_runtime ?d [] (JStr ''block'') ?t1 =
            \<lparr>action = JStr ''allow'', reason = ''Domain allowed: trusted.com'', matched = False\<rparr>"
    by code_simp
  have s2: "url_filter_amended literal_runtime ?d ?p (JStr ''block'') ?t2 =
            \<lparr>action = JStr ''allow'', reason = ''Domain allowed: trusted.com'', matched = False\<rparr>"
    by code_simp
  have s3: "url_filter_amended literal_runtime ?d ?p (JStr ''block'') ?t3 =
            \<lparr>action = JStr ''block'', reason = ''URL matched pattern: bit'', matched = True\<rparr>"
    by code_simp
  have s4: "url_filter_amended literal_runtime ?d ?p (JStr ''block'') ?t4 =
            \<lparr>action = JStr ''block'', reason = ''URL matched pattern: bit'', matched = True\<rparr>"
    by code_simp
  have s5: "url_filter_amended literal_runtime ?d ?p (JStr ''block'') ?t5 =
            \<lparr>action = JStr ''allow'', reason = ''Domain allowed: trusted.com'', matched = False\<rparr>"
    by code_simp
  have s6: "url_filter_amended token_runtime ?d [] (JStr ''block'') ?t6 =
            \<lparr>action = JStr ''allow'',
             reason = ''Domain allowed: http://evil.example:99999/?trusted.com'',
             matched = False\<rparr>"
    by code_simp
  have w1: "evaluateUrlFilter literal_runtime ?c1 (JObj [(''text'', JStr ?t1)]) =
              Inr (url_filter_amended literal_runtime ?d [] (JStr ''block'') ?t1)"
    by (rule conjunct1[OF evaluateUrlFilter_amended
                            [where dv = "JArr ?d" and pv = JUndefined and ac = JUndefined]])
       (simp_all add: tx)
  have w2: "evaluateUrlFilter literal_runtime ?c2 (JObj [(''text'', JStr ?t2)]) =
              Inr (url_filter_amended literal_runtime ?d ?p (JStr ''block'') ?t2)"
    by (rule conjunct1[OF evaluateUrlFilter_amended
                            [where dv = "JArr ?d" and pv = "JArr ?p" and ac = JUndefined]])
       (simp_all add: tx v1 del: set_simps)
  have w3: "evaluateUrlFilter literal_runtime ?c2 (JObj [(''text'', JStr ?t3)]) =
              Inr (url_filter_amended literal_runtime ?d ?p (JStr ''block'') ?t3)"
    by (rule conjunct1[OF evaluateUrlFilter_amended
                            [where dv = "JArr ?d" and pv = "JArr ?p" and ac = JUndefined]])
       (simp_all add: tx v1 del: set_simps)
  have w4: "evaluateUrlFilter literal_runtime ?c2 (JObj [(''text'', JStr ?t4)]) =
              Inr (url_filter_amended literal_runtime ?d ?p (JStr ''block'') ?t4)"
    by (rule conjunct1[OF evaluateUrlFilter_amended
                            [where dv = "JArr ?d" and pv = "JArr ?p" and ac = JUndefined]])
       (simp_all add: tx v1 del: set_simps)
  have w5: "evaluateUrlFilter literal_runtime ?c2 (JObj [(''text'', JStr ?t5)]) =
              Inr (url_filter_amended literal_runtime ?d ?p (JStr ''block'') ?t5)"
    by (rule conjunct1[OF evaluateUrlFilter_amended
                            [where dv = "JArr ?d" and pv = "JArr ?p" and ac = JUndefined]])
       (simp_all add: tx v1 del: set_simps)
  have w6: "evaluateUrlFilter token_runtime ?c1 (JObj [(''text'', JStr ?t6)]) =
              Inr (url_filter_amended token_runtime ?d [] (JStr ''block'') ?t6)"
    by (rule conjunct1[OF evaluateUrlFilter_amended
                            [where dv = "JArr ?d" and pv = JUndefined and ac = JUndefined]])
       (simp_all add: tx)
  have w: "evaluateUrlFilter literal_runtime ?c1 (JObj [(''text'', JStr t)]) =
             Inr (url_filter_amended literal_runtime ?d [] (JStr ''block'') t)"
    if "t \<noteq> []" for t
    by (rule conjunct1[OF evaluateUrlFilter_amended
                            [where dv = "JArr ?d" and pv = JUndefined and ac = JUndefined]])
       (simp_all add: tx that)
  have s7: "list_all
     (\<lambda>sep. url_filter_amended literal_runtime ?d [] (JStr ''block'')
              (''http://a.org/1'' @ [sep] @ ''https://trusted.com/x'') =
           \<lparr>action = JStr ''allow'', reason = ''Domain allowed: trusted.com'',
            matched = False\<rparr>)
     [CHR 0x09, CHR 0x0A, CHR 0x0B, CHR 0x0C, CHR 0x0D, CHR 0x20, CHR 0xA0]"
    by code_simp
  have w7: "list_all
     (\<lambda>sep. evaluateUrlFilter literal_runtime ?c1
             (JObj [(''text'', JStr (''http://a.org/1'' @ [sep] @ ''https://trusted.com/x''))]) =
           Inr \<lparr>action = JStr ''allow'', reason = ''Domain allowed: trusted.com'',
                matched = False\<rparr>)
     [CHR 0x09, CHR 0x0A, CHR 0x0B, CHR 0x0C, CHR 0x0D, CHR 0x20, CHR 0xA0]"
    using s7 by (simp add: w)
  have s8: "url_filter_amended literal_runtime ?d [] (JStr ''block'')
              ''visit http:// or https:// now'' =
            \<lparr>action = JStr ''allow'', reason = ''No URLs found'', matched = False\<rparr>"
    by code_simp
  have w8: "evaluateUrlFilter literal_runtime ?c1
              (JObj [(''text'', JStr ''visit http:// or https:// now'')]) =
            Inr \<lparr>action = JStr ''allow'', reason = ''No URLs found'', matched = False\<rparr>"
    by (simp add: w s8)
  note r = w1[unfolded s1] w2[unfolded s2] w3[unfolded s3] w4[unfolded s4] w5[unfolded s5]
           w6[unfolded s6]
  show ?thesis
    by (intro conjI, rule r(1), rule r(2), rule r(3), rule r(4), rule r(5), rule r(6),
        rule w7, rule w8)
qed



text \<open>
  C2 as stated fails on a URL that does not parse. \<^verbatim>\<open>http://evil.example:99999/?trusted.com\<close>
  has a port above 65535 and so no host; \<^verbatim>\<open>extractDomain\<close> returns the URL itself, in which
  the domain \<^verbatim>\<open>trusted.com\<close> is found, and the code allows the message. The filter of the
  specification finds no listed domain in a host and blocks on the pattern \<^verbatim>\<open>evil\<close>.
\<close>

theorem evaluateUrlFilter_host_counterexample:
  "url_hostname token_runtime ''http://evil.example:99999/?trusted.com'' = None \<and>
   evaluateUrlFilter token_runtime
     (JObj [(''domains'', JArr [JStr ''trusted.com'']), (''patterns'', JArr [JStr ''evil''])])
     (JObj [(''text'', JStr ''http://evil.example:99999/?trusted.com'')]) =
   Inr \<lparr>action = JStr ''allow'',
        reason = ''Domain allowed: http://evil.example:99999/?trusted.com'',
        matched = False\<rparr> \<and>
   url_filter_spec token_runtime [JStr ''trusted.com''] [JStr ''evil''] (JStr ''block'')
     ''http://evil.example:99999/?trusted.com'' =
   \<lparr>action = JStr ''block'', reason = ''URL matched pattern: evil'', matched = True\<rparr>"
  by code_simp

section \<open>Properties of the evaluation of all rules\<close>

lemma evaluate_loop_map:
  "evaluate_loop rt message rules results = results @ map (rule_entry rt message) rules"
  by (induction rules arbitrary: results) simp_all

lemma rule_entry_evaluation:
  "\<exists>ev. evaluateRule rt rule message = Inr ev \<and>
        rule_entry rt message rule =
          \<lparr>eval_rule_id = rule_id rule, eval_rule_name = rule_name rule,
           eval_rule_type = rule_type rule, eval_action = action ev,
           eval_reason = reason ev, eval_matched = matched ev, eval_error = None\<rparr>"
proof -
  from evaluateRule_returns obtain ev where "evaluateRule rt rule message = Inr ev" by blast
  then show ?thesis by (simp add: rule_entry_def)
qed

text \<open>
  C1. When the query for the rules succeeds, \<^verbatim>\<open>evaluateRules\<close> returns a report. The
  rules it evaluates are the owner's active rows, each once, in the order of the rule
  list; \<^verbatim>\<open>rule_evaluations\<close> has one entry for each of them, in that order, made from
  what \<^verbatim>\<open>evaluateRule\<close> returns for the rule; \<^verbatim>\<open>blocking_rules\<close> is the sub-list of the
  entries whose action is the string \<^verbatim>\<open>block\<close> and which matched; \<^verbatim>\<open>final_action\<close> is
  \<^verbatim>\<open>block\<close> when that list is not empty and \<^verbatim>\<open>allow\<close> otherwise. So matches with the
  action \<^verbatim>\<open>flag\<close> alone give \<^verbatim>\<open>allow\<close>, and an owner without active rules gets
  \<^verbatim>\<open>allow\<close> with both lists empty.
\<close>

theorem evaluateRules_report:
  "\<exists>rules report.
     getUserRules db False userId \<lparr>filter_rule_type = None, filter_is_active = Some True\<rparr>
       = Inr rules \<and>
     mset rules = mset (filter (\<lambda>r. user_id r = userId \<and> is_active r) (privacy_rules db)) \<and>
     evaluateRules rt db False message userId = Inr report \<and>
     list_all2
       (\<lambda>rule e. \<exists>ev. evaluateRule rt rule message = Inr ev \<and>
                    e = \<lparr>eval_rule_id = rule_id rule, eval_rule_name = rule_name rule,
                         eval_rule_type = rule_type rule, eval_action = action ev,
                         eval_reason = reason ev, eval_matched = matched ev,
                         eval_error = None\<rparr>)
       rules (rule_evaluations report) \<and>
     blocking_rules report =
       filter (\<lambda>e. eval_action e = JStr ''block'' \<and> eval_matched e) (rule_evaluations report) \<and>
     final_action report = (if blocking_rules report = [] then ''allow'' else ''block'') \<and>
     ((\<forall>e \<in> set (rule_evaluations report). eval_matched e \<longrightarrow> eval_action e = JStr ''flag'')
        \<longrightarrow> final_action report = ''allow'') \<and>
     (rules = [] \<longrightarrow>
        report = \<lparr>final_action = ''allow'', rule_evaluations = [], blocking_rules = []\<rparr>)"
proof -
  define rules where "rules = sort_key (\<lambda>r. (- priority r, - created_at r))
      (filter (\<lambda>r. user_id r = userId \<and> is_active r) (privacy_rules db))"
  define results where "results = map (rule_entry rt message) rules"
  define blocking where
    "blocking = filter (\<lambda>e. eval_action e = JStr ''block'' \<and> eval_matched e) results"
  define report where
    "report = \<lparr>final_action = (if blocking = [] then ''allow'' else ''block''),
               rule_evaluations = results, blocking_rules = blocking\<rparr>"
  have g: "getUserRules db False userId \<lparr>filter_rule_type = None, filter_is_active = Some True\<rparr>
             = Inr rules"
    by (simp add: getUserRules_def rules_def)
  have m: "mset rules =
             mset (filter (\<lambda>r. user_id r = userId \<and> is_active r) (privacy_rules db))"
    by (simp add: rules_def)
  have e: "evaluateRules rt db False message userId = Inr report"
    by (simp add: evaluateRules_def g evaluate_loop_map report_def blocking_def results_def
                  Let_def)
  have l: "list_all2
       (\<lambda>rule e. \<exists>ev. evaluateRule rt rule message = Inr ev \<and>
                    e = \<lparr>eval_rule_id = rule_id rule, eval_rule_name = rule_name rule,
                         eval_rule_type = rule_type rule, eval_action = action ev,
                         eval_reason = reason ev, eval_matched = matched ev,
                         eval_error = None\<rparr>)
       rules results"
    unfolding results_def list_all2_map2
    by (rule list_all2_refl) (rule rule_entry_evaluation)
  have f: "(\<forall>e \<in> set results. eval_matched e \<longrightarrow> eval_action e = JStr ''flag'')
             \<longrightarrow> blocking = []"
    by (auto simp: blocking_def filter_empty_conv)
  have z: "rules = [] \<longrightarrow>
             report = \<lparr>final_action = ''allow'', rule_evaluations = [], blocking_rules = []\<rparr>"
    by (simp add: report_def blocking_def results_def)
  from g m e l f z show ?thesis
    by (intro exI[of _ rules] exI[of _ report]) (simp add: report_def blocking_def)
qed

text \<open>The theorem at the example store, for \<^verbatim>\<open>test-user\<close> and the text
  \<^verbatim>\<open>this is a test\<close>: the rule with the action \<^verbatim>\<open>flag\<close> matches and stands first (its
  priority is higher), the URL rule finds no URL, the inactive rule and the other owner's
  rule are not evaluated, and the final action is \<^verbatim>\<open>allow\<close>.\<close>

theorem evaluateRules_report_witness:
  "evaluateRules literal_runtime example_db False (JObj [(''text'', JStr ''this is a test'')])
     ''test-user'' =
   Inr \<lparr>final_action = ''allow'',
        rule_evaluations =
          [\<lparr>eval_rule_id = ''r-flag'', eval_rule_name = ''Test Rule'',
            eval_rule_type = ''keyword_filter'', eval_action = JStr ''flag'',
            eval_reason = ''Matched 1 keywords: test'', eval_matched = True, eval_error = None\<rparr>,
           \<lparr>eval_rule_id = ''r-url'', eval_rule_name = ''Block Suspicious URLs'',
            eval_rule_type = ''url_filter'', eval_action = JStr ''allow'',
            eval_reason = ''No URLs found'', eval_matched = False, eval_error = None\<rparr>],
        blocking_rules = []\<rparr>"
proof -
  have c: "evaluateRules literal_runtime example_db False
             (JObj [(''text'', JStr ''this is a test'')]) ''test-user'' =
           Inr \<lparr>final_action = ''allow'',
        rule_evaluations =
          [\<lparr>eval_rule_id = ''r-flag'', eval_rule_name = ''Test Rule'',
            eval_rule_type = ''keyword_filter'', eval_action = JStr ''flag'',
            eval_reason = ''Matched 1 keywords: test'', eval_matched = True, eval_error = None\<rparr>,
           \<lparr>eval_rule_id = ''r-url'', eval_rule_name = ''Block Suspicious URLs'',
            eval_rule_type = ''url_filter'', eval_action = JStr ''allow'',
            eval_reason = ''No URLs found'', eval_matched = False, eval_error = None\<rparr>],
        blocking_rules = []\<rparr>"
    by code_simp
  from evaluateRules_report
         [of example_db "''test-user''" literal_runtime "JObj [(''text'', JStr ''this is a test'')]"]
  obtain report where
      r: "evaluateRules literal_runtime example_db False
            (JObj [(''text'', JStr ''this is a test'')]) ''test-user'' = Inr report"
    and f: "(\<forall>e \<in> set (rule_evaluations report). eval_matched e \<longrightarrow> eval_action e = JStr ''flag'')
              \<longrightarrow> final_action report = ''allow''"
    by blast
  from r c f show ?thesis by simp
qed

section \<open>Properties of the store operations\<close>

lemma and_then_Inr_iff: "and_then x f = Inr y \<longleftrightarrow> (\<exists>v. x = Inr v \<and> f v = Inr y)"
  by (cases x) simp_all

lemma sql_param_undefined: "sql_param accept JUndefined = Inr None"
  by (simp add: sql_param_def)

lemma update_params_absent:
  assumes "update_params pg updates = Inr (p_name, p_description, p_config, p_priority, p_active)"
  shows "(js_get updates ''rule_name'' = Inr JUndefined \<longrightarrow> p_name = None) \<and>
         (js_get updates ''rule_description'' = Inr JUndefined \<longrightarrow> p_description = None) \<and>
         (js_get updates ''rule_config'' = Inr JUndefined \<longrightarrow> p_config = None) \<and>
         (js_get updates ''priority'' = Inr JUndefined \<longrightarrow> p_priority = None) \<and>
         (js_get updates ''is_active'' = Inr JUndefined \<longrightarrow> p_active = None)"
proof -
  from assms obtain uname udescription uconfig upriority uactive where
        g1: "js_get updates ''rule_name'' = Inr uname"
    and g2: "js_get updates ''rule_description'' = Inr udescription"
    and g3: "js_get updates ''rule_config'' = Inr uconfig"
    and g4: "js_get updates ''priority'' = Inr upriority"
    and g5: "js_get updates ''is_active'' = Inr uactive"
    and s1: "sql_param (pg_text pg ''rule_name'') uname = Inr p_name"
    and s2: "sql_param (pg_text pg ''rule_description'') udescription = Inr p_description"
    and s3: "sql_param (pg_jsonb pg ''rule_config'') (if truthy uconfig then uconfig else JNull)
               = Inr p_config"
    and s4: "sql_param (pg_integer pg ''priority'') upriority = Inr p_priority"
    and s5: "sql_param (pg_boolean pg ''is_active'') uactive = Inr p_active"
    unfolding update_params_def and_then_Inr_iff by blast
  have "js_get updates ''rule_name'' = Inr JUndefined \<longrightarrow> p_name = None"
    using g1 s1 by (auto simp: sql_param_def)
  moreover have "js_get updates ''rule_description'' = Inr JUndefined \<longrightarrow> p_description = None"
    using g2 s2 by (auto simp: sql_param_def)
  moreover have "js_get updates ''rule_config'' = Inr JUndefined \<longrightarrow> p_config = None"
    using g3 s3 by (auto simp: sql_param_def)
  moreover have "js_get updates ''priority'' = Inr JUndefined \<longrightarrow> p_priority = None"
    using g4 s4 by (auto simp: sql_param_def)
  moreover have "js_get updates ''is_active'' = Inr JUndefined \<longrightarrow> p_active = None"
    using g5 s5 by (auto simp: sql_param_def)
  ultimately show ?thesis by blast
qed

lemma logAudit_returns: "fst (logAudit db now audit_fails ruleId act userId chg ip ua) = Inr ()"
  by (simp add: logAudit_def split: sum.split)

lemma logAudit_rules:
  "privacy_rules (snd (logAudit db now audit_fails ruleId act userId chg ip ua)) = privacy_rules db \<and>
   rule_templates (snd (logAudit db now audit_fails ruleId act userId chg ip ua)) = rule_templates db"
  by (simp add: logAudit_def audit_insert_def)

lemma logAudit_cases:
  obtains db2 where "logAudit db now audit_fails ruleId act userId chg ip ua = (Inr (), db2)"
    and "privacy_rules db2 = privacy_rules db" and "rule_templates db2 = rule_templates db"
  using logAudit_returns[of db now audit_fails ruleId act userId chg ip ua]
        logAudit_rules[of db now audit_fails ruleId act userId chg ip ua]
  by (cases "logAudit db now audit_fails ruleId act userId chg ip ua") auto

lemma after_logAudit:
  "(case logAudit db1 now audit_fails ruleId act userId chg ip ua of
      (Inl error, db2) \<Rightarrow> (Inl error, db2)
    | (Inr u, db2) \<Rightarrow> (Inr row, db2)) =
   (Inr row, snd (logAudit db1 now audit_fails ruleId act userId chg ip ua))"
  by (simp add: logAudit_def split: sum.split)

lemma updateRule_unfold:
  assumes ps: "update_params pg updates = Inr (p_name, p_description, p_config, p_priority, p_active)"
      and nf: "\<not> update_fails"
  shows "updateRule pg db now update_fails audit_fails ruleId updates userId ip ua =
     (case map (update_row p_name p_description p_config p_priority p_active now userId)
             (filter (\<lambda>r. rule_id r = ruleId \<and> user_id r = userId) (privacy_rules db)) of
        [] \<Rightarrow> (Inl (Error ''Rule not found or access denied''),
               db\<lparr>privacy_rules :=
                    map (\<lambda>r. if rule_id r = ruleId \<and> user_id r = userId
                             then update_row p_name p_description p_config p_priority p_active
                                    now userId r
                             else r) (privacy_rules db)\<rparr>)
      | row # rows \<Rightarrow>
          (Inr row,
           snd (logAudit
                  (db\<lparr>privacy_rules :=
                       map (\<lambda>r. if rule_id r = ruleId \<and> user_id r = userId
                                then update_row p_name p_description p_config p_priority p_active
                                       now userId r
                                else r) (privacy_rules db)\<rparr>)
                  now audit_fails ruleId ''UPDATE'' userId (Updates updates) ip ua)))"
  by (simp add: updateRule_def ps nf Let_def after_logAudit split: list.split)

lemma updateRule_failed_params:
  assumes "update_params pg updates = Inl e"
  shows "updateRule pg db now update_fails audit_fails ruleId updates userId ip ua = (Inl e, db)"
  using assms by (simp add: updateRule_def)

lemma updateRule_failed_statement:
  assumes "update_params pg updates = Inr ps" and "update_fails"
  shows "updateRule pg db now update_fails audit_fails ruleId updates userId ip ua =
           (Inl DbError, db)"
proof -
  obtain a b c d e where "ps = (a, b, c, d, e)" by (cases ps) auto
  with assms show ?thesis by (simp add: updateRule_def)
qed

lemma sql_param_Inr_iff:
  "sql_param accept v = Inr p \<longleftrightarrow>
     (if v = JUndefined \<or> v = JNull then p = None else p \<noteq> None \<and> accept v = p)"
  by (auto simp: sql_param_def split: option.splits)

lemma truthy_defined: "truthy v \<Longrightarrow> v \<noteq> JUndefined \<and> v \<noteq> JNull"
  by (cases v) auto

lemma update_params_carried:
  assumes "update_params pg updates = Inr (p_name, p_description, p_config, p_priority, p_active)"
  shows "(\<forall>v. js_get updates ''rule_name'' = Inr v \<longrightarrow> v \<noteq> JUndefined \<longrightarrow> v \<noteq> JNull \<longrightarrow>
            p_name \<noteq> None \<and> pg_text pg ''rule_name'' v = p_name) \<and>
         (\<forall>v. js_get updates ''rule_description'' = Inr v \<longrightarrow> v \<noteq> JUndefined \<longrightarrow> v \<noteq> JNull \<longrightarrow>
            p_description \<noteq> None \<and> pg_text pg ''rule_description'' v = p_description) \<and>
         (\<forall>v. js_get updates ''rule_config'' = Inr v \<longrightarrow> truthy v \<longrightarrow>
            p_config \<noteq> None \<and> pg_jsonb pg ''rule_config'' v = p_config) \<and>
         (\<forall>v. js_get updates ''priority'' = Inr v \<longrightarrow> v \<noteq> JUndefined \<longrightarrow> v \<noteq> JNull \<longrightarrow>
            p_priority \<noteq> None \<and> pg_integer pg ''priority'' v = p_priority) \<and>
         (\<forall>v. js_get updates ''is_active'' = Inr v \<longrightarrow> v \<noteq> JUndefined \<longrightarrow> v \<noteq> JNull \<longrightarrow>
            p_active \<noteq> None \<and> pg_boolean pg ''is_active'' v = p_active)"
proof -
  from assms obtain uname udescription uconfig upriority uactive where
        g1: "js_get updates ''rule_name'' = Inr uname"
    and g2: "js_get updates ''rule_description'' = Inr udescription"
    and g3: "js_get updates ''rule_config'' = Inr uconfig"
    and g4: "js_get updates ''priority'' = Inr upriority"
    and g5: "js_get updates ''is_active'' = Inr uactive"
    and s1: "sql_param (pg_text pg ''rule_name'') uname = Inr p_name"
    and s2: "sql_param (pg_text pg ''rule_description'') udescription = Inr p_description"
    and s3: "sql_param (pg_jsonb pg ''rule_config'') (if truthy uconfig then uconfig else JNull)
               = Inr p_config"
    and s4: "sql_param (pg_integer pg ''priority'') upriority = Inr p_priority"
    and s5: "sql_param (pg_boolean pg ''is_active'') uactive = Inr p_active"
    unfolding update_params_def and_then_Inr_iff by blast
  have "\<forall>v. js_get updates ''rule_name'' = Inr v \<longrightarrow> v \<noteq> JUndefined \<longrightarrow> v \<noteq> JNull \<longrightarrow>
            p_name \<noteq> None \<and> pg_text pg ''rule_name'' v = p_name"
    using g1 s1 by (auto simp: sql_param_Inr_iff)
  moreover have "\<forall>v. js_get updates ''rule_description'' = Inr v \<longrightarrow> v \<noteq> JUndefined \<longrightarrow>
            v \<noteq> JNull \<longrightarrow> p_description \<noteq> None \<and> pg_text pg ''rule_description'' v = p_description"
    using g2 s2 by (auto simp: sql_param_Inr_iff)
  moreover have "\<forall>v. js_get updates ''rule_config'' = Inr v \<longrightarrow> truthy v \<longrightarrow>
            p_config \<noteq> None \<and> pg_jsonb pg ''rule_config'' v = p_config"
    using g3 s3 truthy_defined[of uconfig] by (auto simp: sql_param_Inr_iff)
  moreover have "\<forall>v. js_get updates ''priority'' = Inr v \<longrightarrow> v \<noteq> JUndefined \<longrightarrow> v \<noteq> JNull \<longrightarrow>
            p_priority \<noteq> None \<and> pg_integer pg ''priority'' v = p_priority"
    using g4 s4 by (auto simp: sql_param_Inr_iff)
  moreover have "\<forall>v. js_get updates ''is_active'' = Inr v \<longrightarrow> v \<noteq> JUndefined \<longrightarrow> v \<noteq> JNull \<longrightarrow>
            p_active \<noteq> None \<and> pg_boolean pg ''is_active'' v = p_active"
    using g5 s5 by (auto simp: sql_param_Inr_iff)
  ultimately show ?thesis by blast
qed

lemma updateRule_found:
  assumes ps: "update_params pg updates = Inr ps"
      and nf: "\<not> update_fails"
      and hit: "\<exists>r \<in> set (privacy_rules db). rule_id r = ruleId \<and> user_id r = userId"
  shows "\<exists>row db'. updateRule pg db now update_fails audit_fails ruleId updates userId ip ua =
           (Inr row, db')"
proof -
  obtain a b c d e where p: "ps = (a, b, c, d, e)" by (cases ps) auto
  from hit have "filter (\<lambda>r. rule_id r = ruleId \<and> user_id r = userId) (privacy_rules db) \<noteq> []"
    by (simp add: filter_empty_conv)
  then obtain old rest
    where "filter (\<lambda>r. rule_id r = ruleId \<and> user_id r = userId) (privacy_rules db) = old # rest"
    by (cases "filter (\<lambda>r. rule_id r = ruleId \<and> user_id r = userId) (privacy_rules db)") auto
  then show ?thesis
    by (simp add: updateRule_unfold[OF ps[unfolded p] nf])
qed

text \<open>
  C7. When \<^verbatim>\<open>updateRule\<close> returns a row, the row comes from a rule \<open>old\<close> with this id
  and owner. Every field of \<^verbatim>\<open>rule_name\<close>, \<^verbatim>\<open>rule_description\<close>, \<^verbatim>\<open>rule_config\<close>,
  \<^verbatim>\<open>priority\<close>, \<^verbatim>\<open>is_active\<close> that the update does not carry is the one of \<open>old\<close>. Every
  field that the update carries is written: the row holds the value the driver stores
  for it (for \<^verbatim>\<open>rule_name\<close>, \<^verbatim>\<open>rule_description\<close>, \<^verbatim>\<open>priority\<close>, \<^verbatim>\<open>is_active\<close> a value other
  than \<^verbatim>\<open>undefined\<close> and \<^verbatim>\<open>null\<close>, for \<^verbatim>\<open>rule_config\<close> a truthy value). The columns the
  statement does not name are unchanged, \<^verbatim>\<open>updated_at\<close> is the time of the statement and
  \<^verbatim>\<open>updated_by\<close> the caller; the row is in the table afterwards, and the rows of another
  id or owner are as before. When no row has this id and owner, the call throws and the
  store is as before; when the statement is accepted, what it throws is
  \<^verbatim>\<open>Rule not found or access denied\<close>. When a row has this id and owner and the statement
  is accepted, the call returns a row.
\<close>

theorem updateRule_coalesce:
  "(updateRule pg db now update_fails audit_fails ruleId updates userId ip ua = (Inr row, db') \<longrightarrow>
      (\<exists>old \<in> set (privacy_rules db).
         rule_id old = ruleId \<and> user_id old = userId \<and>
         (js_get updates ''rule_name'' = Inr JUndefined \<longrightarrow> rule_name row = rule_name old) \<and>
         (js_get updates ''rule_description'' = Inr JUndefined \<longrightarrow>
            rule_description row = rule_description old) \<and>
         (js_get updates ''rule_config'' = Inr JUndefined \<longrightarrow>
            rule_config row = rule_config old) \<and>
         (js_get updates ''priority'' = Inr JUndefined \<longrightarrow> priority row = priority old) \<and>
         (js_get updates ''is_active'' = Inr JUndefined \<longrightarrow> is_active row = is_active old) \<and>
         rule_id row = rule_id old \<and> user_id row = user_id old \<and>
         rule_type row = rule_type old \<and> created_at row = created_at old \<and>
         created_by row = created_by old \<and>
         updated_at row = now \<and> updated_by row = Some userId) \<and>
      (\<forall>v. js_get updates ''rule_name'' = Inr v \<longrightarrow> v \<noteq> JUndefined \<longrightarrow> v \<noteq> JNull \<longrightarrow>
         pg_text pg ''rule_name'' v = Some (rule_name row)) \<and>
      (\<forall>v. js_get updates ''rule_description'' = Inr v \<longrightarrow> v \<noteq> JUndefined \<longrightarrow> v \<noteq> JNull \<longrightarrow>
         rule_description row \<noteq> None \<and>
         pg_text pg ''rule_description'' v = rule_description row) \<and>
      (\<forall>v. js_get updates ''rule_config'' = Inr v \<longrightarrow> truthy v \<longrightarrow>
         pg_jsonb pg ''rule_config'' v = Some (rule_config row)) \<and>
      (\<forall>v. js_get updates ''priority'' = Inr v \<longrightarrow> v \<noteq> JUndefined \<longrightarrow> v \<noteq> JNull \<longrightarrow>
         pg_integer pg ''priority'' v = Some (priority row)) \<and>
      (\<forall>v. js_get updates ''is_active'' = Inr v \<longrightarrow> v \<noteq> JUndefined \<longrightarrow> v \<noteq> JNull \<longrightarrow>
         pg_boolean pg ''is_active'' v = Some (is_active row)) \<and>
      row \<in> set (privacy_rules db') \<and>
      length (privacy_rules db') = length (privacy_rules db) \<and>
      (\<forall>i < length (privacy_rules db).
         \<not> (rule_id (privacy_rules db ! i) = ruleId \<and> user_id (privacy_rules db ! i) = userId)
         \<longrightarrow> privacy_rules db' ! i = privacy_rules db ! i)) \<and>
   ((\<forall>r \<in> set (privacy_rules db). \<not> (rule_id r = ruleId \<and> user_id r = userId)) \<longrightarrow>
      (\<exists>e. updateRule pg db now update_fails audit_fails ruleId updates userId ip ua = (Inl e, db)) \<and>
      (\<forall>ps. update_params pg updates = Inr ps \<and> \<not> update_fails \<longrightarrow>
         updateRule pg db now update_fails audit_fails ruleId updates userId ip ua =
           (Inl (Error ''Rule not found or access denied''), db))) \<and>
   ((\<exists>r \<in> set (privacy_rules db). rule_id r = ruleId \<and> user_id r = userId) \<longrightarrow>
      (\<forall>ps. update_params pg updates = Inr ps \<and> \<not> update_fails \<longrightarrow>
         (\<exists>row db'. updateRule pg db now update_fails audit_fails ruleId updates userId ip ua =
            (Inr row, db'))))"
proof (intro conjI impI)
  assume ok: "updateRule pg db now update_fails audit_fails ruleId updates userId ip ua = (Inr row, db')"
  from ok obtain ps where ps0: "update_params pg updates = Inr ps"
    using updateRule_failed_params[of pg updates _ db now update_fails audit_fails ruleId userId ip ua]
    by (cases "update_params pg updates") auto
  obtain p_name p_description p_config p_priority p_active
    where ps: "update_params pg updates = Inr (p_name, p_description, p_config, p_priority, p_active)"
    using ps0 by (cases ps) auto
  from ok ps have nf: "\<not> update_fails"
    using updateRule_failed_statement[OF ps, of update_fails db now audit_fails ruleId userId ip ua]
    by auto
  let ?hit = "\<lambda>r. rule_id r = ruleId \<and> user_id r = userId"
  let ?upd = "update_row p_name p_description p_config p_priority p_active now userId"
  let ?db1 = "db\<lparr>privacy_rules := map (\<lambda>r. if ?hit r then ?upd r else r) (privacy_rules db)\<rparr>"
  note u = updateRule_unfold[OF ps nf, of db now audit_fails ruleId userId ip ua]
  from ok u obtain old rest where hits: "filter ?hit (privacy_rules db) = old # rest"
    by (cases "filter ?hit (privacy_rules db)") auto
  from ok u hits have row: "row = ?upd old"
    and db': "db' = snd (logAudit ?db1 now audit_fails ruleId ''UPDATE'' userId (Updates updates) ip ua)"
    by auto
  from hits have "old \<in> set (filter ?hit (privacy_rules db))" by simp
  then have old: "old \<in> set (privacy_rules db)" "rule_id old = ruleId" "user_id old = userId"
    by auto
  from db' have rules': "privacy_rules db' = map (\<lambda>r. if ?hit r then ?upd r else r) (privacy_rules db)"
    by (simp add: logAudit_rules)
  note abs = update_params_absent[OF ps]
  note car = update_params_carried[OF ps]
  have frame: "(js_get updates ''rule_name'' = Inr JUndefined \<longrightarrow> rule_name row = rule_name old) \<and>
         (js_get updates ''rule_description'' = Inr JUndefined \<longrightarrow>
            rule_description row = rule_description old) \<and>
         (js_get updates ''rule_config'' = Inr JUndefined \<longrightarrow>
            rule_config row = rule_config old) \<and>
         (js_get updates ''priority'' = Inr JUndefined \<longrightarrow> priority row = priority old) \<and>
         (js_get updates ''is_active'' = Inr JUndefined \<longrightarrow> is_active row = is_active old)"
    using abs by (auto simp: row update_row_def)
  have kept: "rule_id row = rule_id old \<and> user_id row = user_id old \<and>
         rule_type row = rule_type old \<and> created_at row = created_at old \<and>
         created_by row = created_by old \<and>
         updated_at row = now \<and> updated_by row = Some userId"
    by (simp add: row update_row_def)
  from old frame kept
  show "\<exists>old \<in> set (privacy_rules db).
         rule_id old = ruleId \<and> user_id old = userId \<and>
         (js_get updates ''rule_name'' = Inr JUndefined \<longrightarrow> rule_name row = rule_name old) \<and>
         (js_get updates ''rule_description'' = Inr JUndefined \<longrightarrow>
            rule_description row = rule_description old) \<and>
         (js_get updates ''rule_config'' = Inr JUndefined \<longrightarrow>
            rule_config row = rule_config old) \<and>
         (js_get updates ''priority'' = Inr JUndefined \<longrightarrow> priority row = priority old) \<and>
         (js_get updates ''is_active'' = Inr JUndefined \<longrightarrow> is_active row = is_active old) \<and>
         rule_id row = rule_id old \<and> user_id row = user_id old \<and>
         rule_type row = rule_type old \<and> created_at row = created_at old \<and>
         created_by row = created_by old \<and>
         updated_at row = now \<and> updated_by row = Some userId"
    by blast
  have n: "rule_name row = coalesce p_name (rule_name old)"
    and d: "rule_description row =
              (case p_description of None \<Rightarrow> rule_description old | Some x \<Rightarrow> Some x)"
    and c: "rule_config row = coalesce p_config (rule_config old)"
    and p: "priority row = coalesce p_priority (priority old)"
    and a: "is_active row = coalesce p_active (is_active old)"
    by (simp_all add: row update_row_def)
  show "\<forall>v. js_get updates ''rule_name'' = Inr v \<longrightarrow> v \<noteq> JUndefined \<longrightarrow> v \<noteq> JNull \<longrightarrow>
         pg_text pg ''rule_name'' v = Some (rule_name row)"
    using car n by (cases p_name) auto
  show "\<forall>v. js_get updates ''rule_description'' = Inr v \<longrightarrow> v \<noteq> JUndefined \<longrightarrow> v \<noteq> JNull \<longrightarrow>
         rule_description row \<noteq> None \<and> pg_text pg ''rule_description'' v = rule_description row"
    using car d by (cases p_description) auto
  show "\<forall>v. js_get updates ''rule_config'' = Inr v \<longrightarrow> truthy v \<longrightarrow>
         pg_jsonb pg ''rule_config'' v = Some (rule_config row)"
    using car c by (cases p_config) auto
  show "\<forall>v. js_get updates ''priority'' = Inr v \<longrightarrow> v \<noteq> JUndefined \<longrightarrow> v \<noteq> JNull \<longrightarrow>
         pg_integer pg ''priority'' v = Some (priority row)"
    using car p by (cases p_priority) auto
  show "\<forall>v. js_get updates ''is_active'' = Inr v \<longrightarrow> v \<noteq> JUndefined \<longrightarrow> v \<noteq> JNull \<longrightarrow>
         pg_boolean pg ''is_active'' v = Some (is_active row)"
    using car a by (cases p_active) auto
  from old show "row \<in> set (privacy_rules db')"
    unfolding rules' row by force
  show "length (privacy_rules db') = length (privacy_rules db)"
    by (simp add: rules')
  show "\<forall>i < length (privacy_rules db).
         \<not> (rule_id (privacy_rules db ! i) = ruleId \<and> user_id (privacy_rules db ! i) = userId)
         \<longrightarrow> privacy_rules db' ! i = privacy_rules db ! i"
    by (simp add: rules')
next
  assume none: "\<forall>r \<in> set (privacy_rules db). \<not> (rule_id r = ruleId \<and> user_id r = userId)"
  then have nohit: "filter (\<lambda>r. rule_id r = ruleId \<and> user_id r = userId) (privacy_rules db) = []"
    by (simp add: filter_empty_conv)
  from none have same: "map (\<lambda>r. if rule_id r = ruleId \<and> user_id r = userId then f r else r)
                          (privacy_rules db) = privacy_rules db" for f
    by (intro map_idI) auto
  have accepted: "updateRule pg db now update_fails audit_fails ruleId updates userId ip ua =
           (Inl (Error ''Rule not found or access denied''), db)"
    if "update_params pg updates = Inr ps" and "\<not> update_fails" for ps
  proof -
    obtain a b c d e where "ps = (a, b, c, d, e)" by (cases ps) auto
    with that show ?thesis
      by (simp add: updateRule_unfold nohit same)
  qed
  show "\<exists>e. updateRule pg db now update_fails audit_fails ruleId updates userId ip ua = (Inl e, db)"
  proof (cases "update_params pg updates")
    case (Inl e)
    then show ?thesis by (simp add: updateRule_failed_params)
  next
    case (Inr ps)
    show ?thesis
    proof (cases update_fails)
      case True
      with Inr show ?thesis by (simp add: updateRule_failed_statement)
    next
      case False
      with Inr accepted show ?thesis by blast
    qed
  qed
  from accepted
  show "\<forall>ps. update_params pg updates = Inr ps \<and> \<not> update_fails \<longrightarrow>
         updateRule pg db now update_fails audit_fails ruleId updates userId ip ua =
           (Inl (Error ''Rule not found or access denied''), db)"
    by blast
next
  assume hit: "\<exists>r \<in> set (privacy_rules db). rule_id r = ruleId \<and> user_id r = userId"
  show "\<forall>ps. update_params pg updates = Inr ps \<and> \<not> update_fails \<longrightarrow>
         (\<exists>row db'. updateRule pg db now update_fails audit_fails ruleId updates userId ip ua =
            (Inr row, db'))"
    using updateRule_found[OF _ _ hit] by blast
qed

text \<open>The theorem at the example store. The update \<^verbatim>\<open>{priority: 5}\<close> of the URL rule by
  its owner changes the priority from 1 to 5 and leaves the name, description,
  configuration and activity. The update of the same rule that carries a name, a
  description, a configuration and \<^verbatim>\<open>is_active: false\<close> returns a row, which holds these
  four values and the priority 1 of the rule. The update by another user fails and
  changes nothing.\<close>

theorem updateRule_coalesce_witness:
  "(let row = \<lparr>rule_id = ''r-url'', user_id = ''test-user'', rule_type = ''url_filter'',
                rule_name = ''Block Suspicious URLs'', rule_description = None,
                rule_config = JObj [(''patterns'', JArr [JStr ''tinyurl'']),
                                    (''action'', JStr ''block'')],
                priority = 5, is_active = True, created_at = 10, updated_at = 100,
                created_by = Some ''test-user'', updated_by = Some ''test-user''\<rparr>
    in fst (updateRule strict_driver example_db 100 False False ''r-url''
              (JObj [(''priority'', JNum 5)]) ''test-user'' None None) = Inr row \<and>
       (\<exists>old \<in> set (privacy_rules example_db).
          rule_id old = ''r-url'' \<and> user_id old = ''test-user'' \<and> priority old = 1 \<and>
          rule_name row = rule_name old \<and> rule_description row = rule_description old \<and>
          rule_config row = rule_config old \<and> is_active row = is_active old)) \<and>
   (\<exists>row db'.
      updateRule strict_driver example_db 100 False False ''r-url''
        (JObj [(''rule_name'', JStr ''Renamed''), (''rule_description'', JStr ''New text''),
               (''rule_config'', JObj [(''patterns'', JArr [JStr ''bit''])]),
               (''is_active'', JBool False)]) ''test-user'' None None = (Inr row, db') \<and>
      rule_name row = ''Renamed'' \<and> rule_description row = Some ''New text'' \<and>
      rule_config row = JObj [(''patterns'', JArr [JStr ''bit''])] \<and>
      is_active row = False \<and> priority row = 1 \<and>
      updated_at row = 100 \<and> updated_by row = Some ''test-user'') \<and>
   updateRule strict_driver example_db 100 False False ''r-url''
     (JObj [(''priority'', JNum 5)]) ''user-002'' None None =
     (Inl (Error ''Rule not found or access denied''), example_db)"
proof -
  let ?u = "JObj [(''priority'', JNum 5)]"
  let ?v = "JObj [(''rule_name'', JStr ''Renamed''), (''rule_description'', JStr ''New text''),
                  (''rule_config'', JObj [(''patterns'', JArr [JStr ''bit''])]),
                  (''is_active'', JBool False)]"
  let ?row = "\<lparr>rule_id = ''r-url'', user_id = ''test-user'', rule_type = ''url_filter'',
                rule_name = ''Block Suspicious URLs'', rule_description = None,
                rule_config = JObj [(''patterns'', JArr [JStr ''tinyurl'']),
                                    (''action'', JStr ''block'')],
                priority = 5, is_active = True, created_at = 10, updated_at = 100,
                created_by = Some ''test-user'', updated_by = Some ''test-user''\<rparr>"
  let ?call = "updateRule strict_driver example_db 100 False False ''r-url'' ?u ''test-user''
                 None None"
  have f: "fst ?call = Inr ?row" by code_simp
  then have ok: "?call = (Inr ?row, snd ?call)" by (simp add: prod_eq_iff)
  have none: "\<forall>r \<in> set (privacy_rules example_db).
                \<not> (rule_id r = ''r-url'' \<and> user_id r = ''user-002'')"
    by (simp add: example_db_def)
  have some: "\<exists>r \<in> set (privacy_rules example_db).
                rule_id r = ''r-url'' \<and> user_id r = ''test-user''"
    by (simp add: example_db_def)
  have ps: "update_params strict_driver ?u = Inr (None, None, None, Some 5, None)"
    by code_simp
  have pv: "update_params strict_driver ?v =
              Inr (Some ''Renamed'', Some ''New text'',
                   Some (JObj [(''patterns'', JArr [JStr ''bit''])]), None, Some False)"
    by code_simp
  have one: "r = hd (privacy_rules example_db)"
    if "r \<in> set (privacy_rules example_db)" and "rule_id r = ''r-url''" for r
    using that by (auto simp: example_db_def)
  have p1: "priority (hd (privacy_rules example_db)) = 1"
    by (simp add: example_db_def)
  note t1 = updateRule_coalesce
         [of strict_driver example_db 100 False False "''r-url''" ?u "''test-user''" None None
             ?row "snd ?call"]
  note s1 = mp[OF conjunct1[OF t1] ok]
  from s1[THEN conjunct1]
  obtain old where old: "old \<in> set (privacy_rules example_db)" "rule_id old = ''r-url''"
      "user_id old = ''test-user''"
      "rule_name ?row = rule_name old" "rule_description ?row = rule_description old"
      "rule_config ?row = rule_config old" "is_active ?row = is_active old"
    by auto
  from one[OF old(1,2)] p1 have "priority old = 1" by simp
  with old have ex: "\<exists>old \<in> set (privacy_rules example_db).
          rule_id old = ''r-url'' \<and> user_id old = ''test-user'' \<and> priority old = 1 \<and>
          rule_name ?row = rule_name old \<and> rule_description ?row = rule_description old \<and>
          rule_config ?row = rule_config old \<and> is_active ?row = is_active old"
    by blast
  note t3 = updateRule_coalesce
         [of strict_driver example_db 100 False False "''r-url''" ?v "''test-user''" None None]
  from mp[OF conjunct2[OF conjunct2[OF t3]] some] pv
  obtain row2 db2
    where ok2: "updateRule strict_driver example_db 100 False False ''r-url'' ?v ''test-user''
                  None None = (Inr row2, db2)"
    by blast
  note t2 = updateRule_coalesce
         [of strict_driver example_db 100 False False "''r-url''" ?v "''test-user''" None None
             row2 db2]
  note s2 = mp[OF conjunct1[OF t2] ok2]
  from s2[THEN conjunct1]
  obtain old2 where old2: "old2 \<in> set (privacy_rules example_db)"
      "rule_id old2 = ''r-url''" "priority row2 = priority old2"
      "updated_at row2 = 100" "updated_by row2 = Some ''test-user''"
    by auto
  from one[OF old2(1,2)] p1 old2(3) have r5: "priority row2 = 1" by simp
  from s2[THEN conjunct2, THEN conjunct1]
  have r1: "rule_name row2 = ''Renamed''" by (simp add: strict_driver_def)
  from s2[THEN conjunct2, THEN conjunct2, THEN conjunct1]
  have r2: "rule_description row2 = Some ''New text''" by (simp add: strict_driver_def)
  from s2[THEN conjunct2, THEN conjunct2, THEN conjunct2, THEN conjunct1]
  have r3: "rule_config row2 = JObj [(''patterns'', JArr [JStr ''bit''])]"
    by (simp add: strict_driver_def)
  from s2[THEN conjunct2, THEN conjunct2, THEN conjunct2, THEN conjunct2, THEN conjunct2,
          THEN conjunct1]
  have r4: "is_active row2 = False" by (simp add: strict_driver_def)
  from ok2 r1 r2 r3 r4 r5 old2(4,5)
  have ex2: "\<exists>row db'.
      updateRule strict_driver example_db 100 False False ''r-url'' ?v ''test-user'' None None
        = (Inr row, db') \<and>
      rule_name row = ''Renamed'' \<and> rule_description row = Some ''New text'' \<and>
      rule_config row = JObj [(''patterns'', JArr [JStr ''bit''])] \<and>
      is_active row = False \<and> priority row = 1 \<and>
      updated_at row = 100 \<and> updated_by row = Some ''test-user''"
    by blast
  note t4 = updateRule_coalesce
         [of strict_driver example_db 100 False False "''r-url''" ?u "''user-002''" None None]
  from mp[OF conjunct1[OF conjunct2[OF t4]] none] ps
  have nf: "updateRule strict_driver example_db 100 False False ''r-url'' ?u ''user-002''
              None None = (Inl (Error ''Rule not found or access denied''), example_db)"
    by blast
  from f ex ex2 nf show ?thesis by (simp only: Let_def)
qed

lemma createRule_tail:
  "createRule pg db now ruleId insert_fails audit_fails ruleData userId ip ua =
     (case and_then (js_get ruleData ''rule_type'') (\<lambda>rtype.
           and_then (js_get ruleData ''rule_name'') (\<lambda>rname.
           and_then (js_get ruleData ''rule_description'') (\<lambda>rdescription.
           and_then (js_get ruleData ''rule_config'') (\<lambda>rconfig.
           and_then (js_get ruleData ''priority'') (\<lambda>rpriority.
             insert_rule pg db now insert_fails ruleId userId
               rtype rname rdescription rconfig (js_or rpriority (JNum 1))))))) of
        Inl error \<Rightarrow> (Inl error, db)
      | Inr (row, db1) \<Rightarrow>
          (Inr row, snd (logAudit db1 now audit_fails ruleId ''CREATE'' userId (Rule_data ruleData)
                           ip ua)))"
  by (simp only: createRule_def after_logAudit)

lemma deleteRule_tail:
  "deleteRule db now delete_fails audit_fails ruleId userId ip ua =
     (if delete_fails then (Inl DbError, db)
      else
        (let hit = (\<lambda>r. rule_id r = ruleId \<and> user_id r = userId);
             db1 = db\<lparr>privacy_rules := filter (\<lambda>r. \<not> hit r) (privacy_rules db)\<rparr>
         in case filter hit (privacy_rules db) of
              [] \<Rightarrow> (Inl (Error ''Rule not found or access denied''), db1)
            | row # rows \<Rightarrow>
                (Inr row, snd (logAudit db1 now audit_fails ruleId ''DELETE'' userId
                                 (Deleted_rule row) ip ua))))"
  by (simp only: deleteRule_def after_logAudit)

lemma updateRule_tail:
  "updateRule pg db now update_fails audit_fails ruleId updates userId ip ua =
     (case and_then (update_params pg updates)
             (\<lambda>(p_name, p_description, p_config, p_priority, p_active).
                if update_fails then Inl DbError
                else
                  (let hit = (\<lambda>r. rule_id r = ruleId \<and> user_id r = userId);
                       upd = update_row p_name p_description p_config p_priority p_active
                               now userId
                   in Inr (map upd (filter hit (privacy_rules db)),
                           db\<lparr>privacy_rules :=
                                map (\<lambda>r. if hit r then upd r else r) (privacy_rules db)\<rparr>))) of
        Inl error \<Rightarrow> (Inl error, db)
      | Inr ([], db1) \<Rightarrow> (Inl (Error ''Rule not found or access denied''), db1)
      | Inr (row # rows, db1) \<Rightarrow>
          (Inr row, snd (logAudit db1 now audit_fails ruleId ''UPDATE'' userId (Updates updates)
                           ip ua)))"
  by (simp only: updateRule_def after_logAudit)

lemma create_outcome:
  fixes x :: "js_error + privacy_rule \<times> database"
  shows "fst (case x of Inl error \<Rightarrow> (Inl error, db)
               | Inr (row, db1) \<Rightarrow> (Inr row, snd (logAudit db1 now a ruleId act userId chg ip ua))) =
         fst (case x of Inl error \<Rightarrow> (Inl error, db)
               | Inr (row, db1) \<Rightarrow> (Inr row, snd (logAudit db1 now b ruleId act userId chg ip ua))) \<and>
         privacy_rules (snd (case x of Inl error \<Rightarrow> (Inl error, db)
               | Inr (row, db1) \<Rightarrow> (Inr row, snd (logAudit db1 now a ruleId act userId chg ip ua)))) =
         privacy_rules (snd (case x of Inl error \<Rightarrow> (Inl error, db)
               | Inr (row, db1) \<Rightarrow> (Inr row, snd (logAudit db1 now b ruleId act userId chg ip ua))))"
  by (cases x) (auto simp: logAudit_rules)

lemma update_outcome:
  fixes x :: "js_error + privacy_rule list \<times> database"
  shows "fst (case x of Inl error \<Rightarrow> (Inl error, db)
               | Inr ([], db1) \<Rightarrow> (Inl (Error m), db1)
               | Inr (row # rows, db1) \<Rightarrow>
                   (Inr row, snd (logAudit db1 now a ruleId act userId chg ip ua))) =
         fst (case x of Inl error \<Rightarrow> (Inl error, db)
               | Inr ([], db1) \<Rightarrow> (Inl (Error m), db1)
               | Inr (row # rows, db1) \<Rightarrow>
                   (Inr row, snd (logAudit db1 now b ruleId act userId chg ip ua))) \<and>
         privacy_rules (snd (case x of Inl error \<Rightarrow> (Inl error, db)
               | Inr ([], db1) \<Rightarrow> (Inl (Error m), db1)
               | Inr (row # rows, db1) \<Rightarrow>
                   (Inr row, snd (logAudit db1 now a ruleId act userId chg ip ua)))) =
         privacy_rules (snd (case x of Inl error \<Rightarrow> (Inl error, db)
               | Inr ([], db1) \<Rightarrow> (Inl (Error m), db1)
               | Inr (row # rows, db1) \<Rightarrow>
                   (Inr row, snd (logAudit db1 now b ruleId act userId chg ip ua))))"
  by (cases x) (auto simp: logAudit_rules split: list.split)

lemma delete_outcome:
  "fst (deleteRule db now delete_fails a ruleId userId ip ua) =
   fst (deleteRule db now delete_fails b ruleId userId ip ua) \<and>
   privacy_rules (snd (deleteRule db now delete_fails a ruleId userId ip ua)) =
   privacy_rules (snd (deleteRule db now delete_fails b ruleId userId ip ua))"
  unfolding deleteRule_tail
  by (simp add: Let_def logAudit_rules split: list.split)

text \<open>
  C8. \<^verbatim>\<open>logAudit\<close> never throws, and when its INSERT fails it leaves the store as it
  was. For \<^verbatim>\<open>createRule\<close>, \<^verbatim>\<open>updateRule\<close> and \<^verbatim>\<open>deleteRule\<close>, what the call returns or
  throws and the table of rules it leaves are the same whether the audit INSERT fails
  or not.
\<close>

theorem audit_failure_is_swallowed:
  "fst (logAudit db now audit_fails ruleId act userId chg ip ua) = Inr () \<and>
   snd (logAudit db now True ruleId act userId chg ip ua) = db \<and>
   fst (createRule pg db now ruleId insert_fails True ruleData userId ip ua) =
     fst (createRule pg db now ruleId insert_fails False ruleData userId ip ua) \<and>
   privacy_rules (snd (createRule pg db now ruleId insert_fails True ruleData userId ip ua)) =
     privacy_rules (snd (createRule pg db now ruleId insert_fails False ruleData userId ip ua)) \<and>
   fst (updateRule pg db now update_fails True ruleId updates userId ip ua) =
     fst (updateRule pg db now update_fails False ruleId updates userId ip ua) \<and>
   privacy_rules (snd (updateRule pg db now update_fails True ruleId updates userId ip ua)) =
     privacy_rules (snd (updateRule pg db now update_fails False ruleId updates userId ip ua)) \<and>
   fst (deleteRule db now delete_fails True ruleId userId ip ua) =
     fst (deleteRule db now delete_fails False ruleId userId ip ua) \<and>
   privacy_rules (snd (deleteRule db now delete_fails True ruleId userId ip ua)) =
     privacy_rules (snd (deleteRule db now delete_fails False ruleId userId ip ua))"
proof -
  have l: "fst (logAudit db now audit_fails ruleId act userId chg ip ua) = Inr ()"
    by (rule logAudit_returns)
  have s: "snd (logAudit db now True ruleId act userId chg ip ua) = db"
    by (simp add: logAudit_def audit_insert_def)
  have c: "fst (createRule pg db now ruleId insert_fails True ruleData userId ip ua) =
             fst (createRule pg db now ruleId insert_fails False ruleData userId ip ua) \<and>
           privacy_rules (snd (createRule pg db now ruleId insert_fails True ruleData userId ip ua)) =
             privacy_rules (snd (createRule pg db now ruleId insert_fails False ruleData userId ip ua))"
    unfolding createRule_tail by (rule create_outcome)
  have u: "fst (updateRule pg db now update_fails True ruleId updates userId ip ua) =
             fst (updateRule pg db now update_fails False ruleId updates userId ip ua) \<and>
           privacy_rules (snd (updateRule pg db now update_fails True ruleId updates userId ip ua)) =
             privacy_rules (snd (updateRule pg db now update_fails False ruleId updates userId ip ua))"
    unfolding updateRule_tail by (rule update_outcome)
  note d = delete_outcome[of db now delete_fails True ruleId userId ip ua False]
  from l s c u d show ?thesis by blast
qed

text \<open>The theorem at the creation of a rule in the example store: with the audit INSERT
  failing the rule is returned and stored as it is without the failure, and only the
  audit entry is missing.\<close>

theorem audit_failure_is_swallowed_witness:
  "(let ruleData = JObj [(''rule_type'', JStr ''keyword_filter''), (''rule_name'', JStr ''Spam''),
                         (''rule_config'', JObj [(''keywords'', JArr [JStr ''spam''])])];
        row = \<lparr>rule_id = ''r-new'', user_id = ''test-user'', rule_type = ''keyword_filter'',
                rule_name = ''Spam'', rule_description = None,
                rule_config = JObj [(''keywords'', JArr [JStr ''spam''])],
                priority = 1, is_active = True, created_at = 100, updated_at = 100,
                created_by = Some ''test-user'', updated_by = None\<rparr>;
        failing = createRule strict_driver example_db 100 ''r-new'' False True ruleData
                    ''test-user'' (Some ''10.0.0.1'') None;
        logging = createRule strict_driver example_db 100 ''r-new'' False False ruleData
                    ''test-user'' (Some ''10.0.0.1'') None
    in fst failing = Inr row \<and> fst logging = Inr row \<and>
       privacy_rules (snd failing) = privacy_rules example_db @ [row] \<and>
       privacy_rules (snd logging) = privacy_rules example_db @ [row] \<and>
       rule_audit_log (snd failing) = [] \<and>
       length (rule_audit_log (snd logging)) = 1)"
proof -
  let ?data = "JObj [(''rule_type'', JStr ''keyword_filter''), (''rule_name'', JStr ''Spam''),
                     (''rule_config'', JObj [(''keywords'', JArr [JStr ''spam''])])]"
  let ?row = "\<lparr>rule_id = ''r-new'', user_id = ''test-user'', rule_type = ''keyword_filter'',
                rule_name = ''Spam'', rule_description = None,
                rule_config = JObj [(''keywords'', JArr [JStr ''spam''])],
                priority = 1, is_active = True, created_at = 100, updated_at = 100,
                created_by = Some ''test-user'', updated_by = None\<rparr>"
  let ?failing = "createRule strict_driver example_db 100 ''r-new'' False True ?data
                    ''test-user'' (Some ''10.0.0.1'') None"
  let ?logging = "createRule strict_driver example_db 100 ''r-new'' False False ?data
                    ''test-user'' (Some ''10.0.0.1'') None"
  have l1: "fst ?logging = Inr ?row" by code_simp
  have l2: "privacy_rules (snd ?logging) = privacy_rules example_db @ [?row]" by code_simp
  have l3: "length (rule_audit_log (snd ?logging)) = 1" by code_simp
  have f3: "rule_audit_log (snd ?failing) = []" by code_simp
  from audit_failure_is_swallowed
         [of example_db 100 False "''r-new''" "''CREATE''" "''test-user''" "Rule_data ?data"
             "Some ''10.0.0.1''" None strict_driver False ?data False ?data False]
  have "fst ?failing = fst ?logging"
    and "privacy_rules (snd ?failing) = privacy_rules (snd ?logging)"
    by blast+
  with l1 l2 l3 f3 show ?thesis by (simp add: Let_def)
qed

lemma not_null_Inr_iff: "not_null x = Inr v \<longleftrightarrow> x = Some v"
  by (cases x) simp_all

lemma insert_rule_success:
  assumes "insert_rule pg db now insert_fails ruleId userId rtype rname rdescription rconfig rpriority
             = Inr (row, db1)"
  shows "db1 = db\<lparr>privacy_rules := privacy_rules db @ [row]\<rparr> \<and>
         rule_id row = ruleId \<and> user_id row = userId \<and> is_active row \<and>
         created_at row = now \<and> created_by row = Some userId \<and>
         sql_param (pg_text pg ''rule_type'') rtype = Inr (Some (rule_type row)) \<and>
         sql_param (pg_text pg ''rule_name'') rname = Inr (Some (rule_name row)) \<and>
         sql_param (pg_text pg ''rule_description'') rdescription = Inr (rule_description row) \<and>
         pg_jsonb pg ''rule_config'' rconfig = Some (rule_config row) \<and>
         pg_integer pg ''priority'' rpriority = Some (priority row)"
proof -
  from assms obtain c_type c_name c_description c_config c_priority where
        t: "sql_param (pg_text pg ''rule_type'') rtype = Inr (Some c_type)"
    and n: "sql_param (pg_text pg ''rule_name'') rname = Inr (Some c_name)"
    and d: "sql_param (pg_text pg ''rule_description'') rdescription = Inr c_description"
    and c: "(if rconfig = JUndefined then Inl DbError
             else not_null (pg_jsonb pg ''rule_config'' rconfig)) = Inr c_config"
    and p: "pg_integer pg ''priority'' rpriority = Some c_priority"
    and r: "(if insert_fails \<or> ruleId \<in> rule_id ` set (privacy_rules db) then Inl DbError
             else
               (let row = \<lparr>rule_id = ruleId, user_id = userId, rule_type = c_type,
                     rule_name = c_name, rule_description = c_description,
                     rule_config = c_config, priority = c_priority, is_active = True,
                     created_at = now, updated_at = now,
                     created_by = Some userId, updated_by = None\<rparr>
                in Inr (row, db\<lparr>privacy_rules := privacy_rules db @ [row]\<rparr>))) = Inr (row, db1)"
    unfolding insert_rule_def and_then_Inr_iff not_null_Inr_iff by blast
  from c have c': "pg_jsonb pg ''rule_config'' rconfig = Some c_config"
    by (simp add: not_null_Inr_iff split: if_splits)
  from r have row: "row = \<lparr>rule_id = ruleId, user_id = userId, rule_type = c_type,
                     rule_name = c_name, rule_description = c_description,
                     rule_config = c_config, priority = c_priority, is_active = True,
                     created_at = now, updated_at = now,
                     created_by = Some userId, updated_by = None\<rparr>"
    and db1: "db1 = db\<lparr>privacy_rules := privacy_rules db @ [row]\<rparr>"
    by (auto simp: Let_def split: if_splits)
  from t n d c' p db1 show ?thesis by (simp add: row)
qed

lemma createRule_success:
  assumes "createRule pg db now ruleId insert_fails audit_fails ruleData userId ip ua = (Inr row, db')"
  shows "\<exists>rtype rname rdescription rconfig rpriority.
         js_get ruleData ''rule_type'' = Inr rtype \<and> js_get ruleData ''rule_name'' = Inr rname \<and>
         js_get ruleData ''rule_description'' = Inr rdescription \<and>
         js_get ruleData ''rule_config'' = Inr rconfig \<and>
         js_get ruleData ''priority'' = Inr rpriority \<and>
         privacy_rules db' = privacy_rules db @ [row] \<and>
         rule_id row = ruleId \<and> user_id row = userId \<and> is_active row \<and>
         sql_param (pg_text pg ''rule_type'') rtype = Inr (Some (rule_type row)) \<and>
         sql_param (pg_text pg ''rule_name'') rname = Inr (Some (rule_name row)) \<and>
         sql_param (pg_text pg ''rule_description'') rdescription = Inr (rule_description row) \<and>
         pg_jsonb pg ''rule_config'' rconfig = Some (rule_config row) \<and>
         pg_integer pg ''priority'' (js_or rpriority (JNum 1)) = Some (priority row) \<and>
         rule_audit_log db' =
           (if audit_fails then rule_audit_log db
            else rule_audit_log db @
                   [\<lparr>audit_rule_id = ruleId, audit_action = ''CREATE'', audit_user_id = userId,
                     changes = Rule_data ruleData, ip_address = ip, user_agent = ua,
                     audit_created_at = now\<rparr>])"
proof -
  let ?x = "and_then (js_get ruleData ''rule_type'') (\<lambda>rtype.
           and_then (js_get ruleData ''rule_name'') (\<lambda>rname.
           and_then (js_get ruleData ''rule_description'') (\<lambda>rdescription.
           and_then (js_get ruleData ''rule_config'') (\<lambda>rconfig.
           and_then (js_get ruleData ''priority'') (\<lambda>rpriority.
             insert_rule pg db now insert_fails ruleId userId
               rtype rname rdescription rconfig (js_or rpriority (JNum 1)))))))"
  from assms obtain db1 where x: "?x = Inr (row, db1)"
    and db': "db' = snd (logAudit db1 now audit_fails ruleId ''CREATE'' userId (Rule_data ruleData) ip ua)"
    unfolding createRule_tail by (cases ?x) auto
  from x obtain rtype rname rdescription rconfig rpriority where
        g: "js_get ruleData ''rule_type'' = Inr rtype" "js_get ruleData ''rule_name'' = Inr rname"
           "js_get ruleData ''rule_description'' = Inr rdescription"
           "js_get ruleData ''rule_config'' = Inr rconfig"
           "js_get ruleData ''priority'' = Inr rpriority"
    and i: "insert_rule pg db now insert_fails ruleId userId rtype rname rdescription rconfig
              (js_or rpriority (JNum 1)) = Inr (row, db1)"
    unfolding and_then_Inr_iff by blast
  note s = insert_rule_success[OF i]
  have a: "rule_audit_log db' =
           (if audit_fails then rule_audit_log db
            else rule_audit_log db @
                   [\<lparr>audit_rule_id = ruleId, audit_action = ''CREATE'', audit_user_id = userId,
                     changes = Rule_data ruleData, ip_address = ip, user_agent = ua,
                     audit_created_at = now\<rparr>])"
    using s by (simp add: db' logAudit_def audit_insert_def)
  have r: "privacy_rules db' = privacy_rules db @ [row]"
    using s by (simp add: db' logAudit_rules)
  from g s a r show ?thesis by blast
qed

lemma js_or_twice: "js_or (js_or a b) b = js_or a b"
  by (simp add: js_or_def)

lemma js_get_spread2:
  "js_get (spread2 (JObj tkvs) (JObj ckvs)) k =
     (if k \<in> fst ` set ckvs then js_get (JObj ckvs) k else js_get (JObj tkvs) k)"
proof (cases "map_of (rev ckvs) k")
  case None
  then have "k \<notin> fst ` set ckvs" by (simp add: map_of_eq_None_iff)
  with None show ?thesis by (simp add: spread2_def map_add_def)
next
  case (Some v)
  then have "k \<in> fst ` set ckvs" using map_of_eq_None_iff[of "rev ckvs" k] by force
  with Some show ?thesis by (simp add: spread2_def map_add_def)
qed

text \<open>
  C5, as the code has it. When the query for the template succeeds: without a public
  template of this id the call throws \<^verbatim>\<open>Template not found\<close> and the store is as
  before. With one, the call is the call of \<^verbatim>\<open>createRule\<close> (the INSERT and the audit
  entry, with no address and no user agent) on the data made of: the \<^verbatim>\<open>rule_type\<close> of
  the template's configuration if truthy, else \<^verbatim>\<open>custom\<close>; the \<^verbatim>\<open>rule_name\<close> and the
  \<^verbatim>\<open>rule_description\<close> of the customizations if truthy, else the template's; the
  \<^verbatim>\<open>priority\<close> of the customizations if truthy, else 1; and as \<^verbatim>\<open>rule_config\<close> the
  spread of the template's configuration and the customizations. A row the call returns
  is appended to the table with these values as the server stores them. In the spread
  of two objects every key of the customizations has the customizations' value and
  every other key the template's.
\<close>

theorem createRuleFromTemplate_merges:
  "(filter (\<lambda>t. template_id t = templateId \<and> is_public t) (rule_templates db) = [] \<longrightarrow>
      createRuleFromTemplate pg db now ruleId False insert_fails audit_fails templateId userId
        customizations = (Inl (Error ''Template not found''), db)) \<and>
   (filter (\<lambda>t. template_id t = templateId \<and> is_public t) (rule_templates db) = template # others \<and>
    customizations \<noteq> JUndefined \<and>
    js_get (template_config template) ''rule_type'' = Inr ttype \<and>
    js_get customizations ''rule_name'' = Inr cname \<and>
    js_get customizations ''rule_description'' = Inr cdescription \<and>
    js_get customizations ''priority'' = Inr cpriority \<longrightarrow>
      createRuleFromTemplate pg db now ruleId False insert_fails audit_fails templateId userId
        customizations =
      createRule pg db now ruleId insert_fails audit_fails
        (JObj [(''rule_type'', js_or ttype (JStr ''custom'')),
               (''rule_name'', js_or cname (JStr (template_name template))),
               (''rule_description'',
                  js_or cdescription
                    (case template_description template of None \<Rightarrow> JNull | Some d \<Rightarrow> JStr d)),
               (''rule_config'', spread2 (template_config template) customizations),
               (''priority'', js_or cpriority (JNum 1))])
        userId None None \<and>
      (\<forall>row db'.
         createRuleFromTemplate pg db now ruleId False insert_fails audit_fails templateId userId
           customizations = (Inr row, db') \<longrightarrow>
         privacy_rules db' = privacy_rules db @ [row] \<and> user_id row = userId \<and>
         pg_jsonb pg ''rule_config'' (spread2 (template_config template) customizations)
           = Some (rule_config row) \<and>
         pg_integer pg ''priority'' (js_or cpriority (JNum 1)) = Some (priority row) \<and>
         sql_param (pg_text pg ''rule_type'') (js_or ttype (JStr ''custom''))
           = Inr (Some (rule_type row)) \<and>
         sql_param (pg_text pg ''rule_name'') (js_or cname (JStr (template_name template)))
           = Inr (Some (rule_name row)) \<and>
         rule_audit_log db' =
           (if audit_fails then rule_audit_log db
            else rule_audit_log db @
                   [\<lparr>audit_rule_id = ruleId, audit_action = ''CREATE'', audit_user_id = userId,
                     changes = Rule_data
                       (JObj [(''rule_type'', js_or ttype (JStr ''custom'')),
                              (''rule_name'', js_or cname (JStr (template_name template))),
                              (''rule_description'',
                                 js_or cdescription
                                   (case template_description template of
                                      None \<Rightarrow> JNull | Some d \<Rightarrow> JStr d)),
                              (''rule_config'', spread2 (template_config template) customizations),
                              (''priority'', js_or cpriority (JNum 1))]),
                     ip_address = None, user_agent = None, audit_created_at = now\<rparr>]))) \<and>
   (js_get (spread2 (JObj tkvs) (JObj ckvs)) k =
      (if k \<in> fst ` set ckvs then js_get (JObj ckvs) k else js_get (JObj tkvs) k))"
proof -
  have nf: "filter (\<lambda>t. template_id t = templateId \<and> is_public t) (rule_templates db) = [] \<longrightarrow>
      createRuleFromTemplate pg db now ruleId False insert_fails audit_fails templateId userId
        customizations = (Inl (Error ''Template not found''), db)"
    by (simp add: createRuleFromTemplate_def Let_def)
  let ?data = "JObj [(''rule_type'', js_or ttype (JStr ''custom'')),
               (''rule_name'', js_or cname (JStr (template_name template))),
               (''rule_description'',
                  js_or cdescription
                    (case template_description template of None \<Rightarrow> JNull | Some d \<Rightarrow> JStr d)),
               (''rule_config'', spread2 (template_config template) customizations),
               (''priority'', js_or cpriority (JNum 1))]"
  have found: "filter (\<lambda>t. template_id t = templateId \<and> is_public t) (rule_templates db) = template # others \<and>
    customizations \<noteq> JUndefined \<and>
    js_get (template_config template) ''rule_type'' = Inr ttype \<and>
    js_get customizations ''rule_name'' = Inr cname \<and>
    js_get customizations ''rule_description'' = Inr cdescription \<and>
    js_get customizations ''priority'' = Inr cpriority \<longrightarrow>
      createRuleFromTemplate pg db now ruleId False insert_fails audit_fails templateId userId
        customizations =
      createRule pg db now ruleId insert_fails audit_fails ?data userId None None \<and>
      (\<forall>row db'.
         createRuleFromTemplate pg db now ruleId False insert_fails audit_fails templateId userId
           customizations = (Inr row, db') \<longrightarrow>
         privacy_rules db' = privacy_rules db @ [row] \<and> user_id row = userId \<and>
         pg_jsonb pg ''rule_config'' (spread2 (template_config template) customizations)
           = Some (rule_config row) \<and>
         pg_integer pg ''priority'' (js_or cpriority (JNum 1)) = Some (priority row) \<and>
         sql_param (pg_text pg ''rule_type'') (js_or ttype (JStr ''custom''))
           = Inr (Some (rule_type row)) \<and>
         sql_param (pg_text pg ''rule_name'') (js_or cname (JStr (template_name template)))
           = Inr (Some (rule_name row)) \<and>
         rule_audit_log db' =
           (if audit_fails then rule_audit_log db
            else rule_audit_log db @
                   [\<lparr>audit_rule_id = ruleId, audit_action = ''CREATE'', audit_user_id = userId,
                     changes = Rule_data ?data,
                     ip_address = None, user_agent = None, audit_created_at = now\<rparr>]))"
  proof (rule impI)
    assume h: "filter (\<lambda>t. template_id t = templateId \<and> is_public t) (rule_templates db) = template # others \<and>
      customizations \<noteq> JUndefined \<and>
      js_get (template_config template) ''rule_type'' = Inr ttype \<and>
      js_get customizations ''rule_name'' = Inr cname \<and>
      js_get customizations ''rule_description'' = Inr cdescription \<and>
      js_get customizations ''priority'' = Inr cpriority"
    then have d: "createRuleFromTemplate pg db now ruleId False insert_fails audit_fails templateId
                    userId customizations =
                  createRule pg db now ruleId insert_fails audit_fails ?data userId None None"
      by (simp add: createRuleFromTemplate_def Let_def)
    have e: "privacy_rules db' = privacy_rules db @ [row] \<and> user_id row = userId \<and>
         pg_jsonb pg ''rule_config'' (spread2 (template_config template) customizations)
           = Some (rule_config row) \<and>
         pg_integer pg ''priority'' (js_or cpriority (JNum 1)) = Some (priority row) \<and>
         sql_param (pg_text pg ''rule_type'') (js_or ttype (JStr ''custom''))
           = Inr (Some (rule_type row)) \<and>
         sql_param (pg_text pg ''rule_name'') (js_or cname (JStr (template_name template)))
           = Inr (Some (rule_name row)) \<and>
         rule_audit_log db' =
           (if audit_fails then rule_audit_log db
            else rule_audit_log db @
                   [\<lparr>audit_rule_id = ruleId, audit_action = ''CREATE'', audit_user_id = userId,
                     changes = Rule_data ?data,
                     ip_address = None, user_agent = None, audit_created_at = now\<rparr>])"
      if r: "createRuleFromTemplate pg db now ruleId False insert_fails audit_fails templateId
               userId customizations = (Inr row, db')" for row db'
    proof -
      from r d have c: "createRule pg db now ruleId insert_fails audit_fails ?data userId None None
                          = (Inr row, db')" by simp
      from createRule_success[OF c] show ?thesis by (simp add: js_or_twice)
    qed
    from d e show "createRuleFromTemplate pg db now ruleId False insert_fails audit_fails templateId userId
        customizations =
      createRule pg db now ruleId insert_fails audit_fails ?data userId None None \<and>
      (\<forall>row db'.
         createRuleFromTemplate pg db now ruleId False insert_fails audit_fails templateId userId
           customizations = (Inr row, db') \<longrightarrow>
         privacy_rules db' = privacy_rules db @ [row] \<and> user_id row = userId \<and>
         pg_jsonb pg ''rule_config'' (spread2 (template_config template) customizations)
           = Some (rule_config row) \<and>
         pg_integer pg ''priority'' (js_or cpriority (JNum 1)) = Some (priority row) \<and>
         sql_param (pg_text pg ''rule_type'') (js_or ttype (JStr ''custom''))
           = Inr (Some (rule_type row)) \<and>
         sql_param (pg_text pg ''rule_name'') (js_or cname (JStr (template_name template)))
           = Inr (Some (rule_name row)) \<and>
         rule_audit_log db' =
           (if audit_fails then rule_audit_log db
            else rule_audit_log db @
                   [\<lparr>audit_rule_id = ruleId, audit_action = ''CREATE'', audit_user_id = userId,
                     changes = Rule_data ?data,
                     ip_address = None, user_agent = None, audit_created_at = now\<rparr>]))"
      by blast
  qed
  have merge: "js_get (spread2 (JObj tkvs) (JObj ckvs)) k =
      (if k \<in> fst ` set ckvs then js_get (JObj ckvs) k else js_get (JObj tkvs) k)"
    by (rule js_get_spread2)
  show ?thesis
    by (rule conjI[OF nf conjI[OF found merge]])
qed

text \<open>The theorem at the example of the specification: the template's configuration
  has the action \<^verbatim>\<open>allow\<close>, the customizations the action \<^verbatim>\<open>block\<close>; the stored rule has
  the action \<^verbatim>\<open>block\<close> and the template's keywords. An unknown template id fails.\<close>

theorem createRuleFromTemplate_merges_witness:
  "(let row = \<lparr>rule_id = ''r-new'', user_id = ''test-user'', rule_type = ''keyword_filter'',
                rule_name = ''Financial Protection'',
                rule_description = Some ''Template to protect against financial scams'',
                rule_config = JObj [(''rule_type'', JStr ''keyword_filter''),
                                    (''keywords'', JArr [JStr ''lottery'']),
                                    (''action'', JStr ''allow''), (''priority'', JNum 7),
                                    (''action'', JStr ''block'')],
                priority = 1, is_active = True, created_at = 100, updated_at = 100,
                created_by = Some ''test-user'', updated_by = None\<rparr>;
        result = createRuleFromTemplate strict_driver example_db 100 ''r-new'' False False False
                   ''t-1'' ''test-user'' (JObj [(''action'', JStr ''block'')])
    in fst result = Inr row \<and>
       js_get (rule_config row) ''action'' = Inr (JStr ''block'') \<and>
       js_get (rule_config row) ''keywords'' = Inr (JArr [JStr ''lottery'']) \<and>
       privacy_rules (snd result) = privacy_rules example_db @ [row] \<and>
       length (rule_audit_log (snd result)) = 1) \<and>
   createRuleFromTemplate strict_driver example_db 100 ''r-new'' False False False
     ''t-9'' ''test-user'' (JObj [(''action'', JStr ''block'')]) =
     (Inl (Error ''Template not found''), example_db)"
proof -
  let ?c = "JObj [(''action'', JStr ''block'')]"
  let ?t = "\<lparr>template_id = ''t-1'', template_name = ''Financial Protection'',
          template_description = Some ''Template to protect against financial scams'',
          template_category = ''financial_security'',
          template_config = JObj [(''rule_type'', JStr ''keyword_filter''),
                                  (''keywords'', JArr [JStr ''lottery'']),
                                  (''action'', JStr ''allow''), (''priority'', JNum 7)],
          is_public = True\<rparr>"
  let ?row = "\<lparr>rule_id = ''r-new'', user_id = ''test-user'', rule_type = ''keyword_filter'',
                rule_name = ''Financial Protection'',
                rule_description = Some ''Template to protect against financial scams'',
                rule_config = JObj [(''rule_type'', JStr ''keyword_filter''),
                                    (''keywords'', JArr [JStr ''lottery'']),
                                    (''action'', JStr ''allow''), (''priority'', JNum 7),
                                    (''action'', JStr ''block'')],
                priority = 1, is_active = True, created_at = 100, updated_at = 100,
                created_by = Some ''test-user'', updated_by = None\<rparr>"
  let ?result = "createRuleFromTemplate strict_driver example_db 100 ''r-new'' False False False
                   ''t-1'' ''test-user'' ?c"
  have f: "fst ?result = Inr ?row" by code_simp
  then have ok: "?result = (Inr ?row, snd ?result)" by (simp add: prod_eq_iff)
  have found: "filter (\<lambda>t. template_id t = ''t-1'' \<and> is_public t) (rule_templates example_db)
                 = ?t # []"
    by (simp add: example_db_def)
  have missing: "filter (\<lambda>t. template_id t = ''t-9'' \<and> is_public t) (rule_templates example_db)
                   = []"
    by (simp add: example_db_def)
  have g: "js_get (template_config ?t) ''rule_type'' = Inr (JStr ''keyword_filter'')"
          "js_get ?c ''rule_name'' = Inr JUndefined"
          "js_get ?c ''rule_description'' = Inr JUndefined"
          "js_get ?c ''priority'' = Inr JUndefined"
          "?c \<noteq> JUndefined"
    by simp_all
  from createRuleFromTemplate_merges
         [of "''t-1''" example_db strict_driver 100 "''r-new''" False False "''test-user''" ?c
             ?t "[]" "JStr ''keyword_filter''" JUndefined JUndefined JUndefined]
       found g ok
  have stored: "privacy_rules (snd ?result) = privacy_rules example_db @ [?row]"
    and logged: "rule_audit_log (snd ?result) =
                   rule_audit_log example_db @
                   [\<lparr>audit_rule_id = ''r-new'', audit_action = ''CREATE'',
                     audit_user_id = ''test-user'',
                     changes = Rule_data
                       (JObj [(''rule_type'', js_or (JStr ''keyword_filter'') (JStr ''custom'')),
                              (''rule_name'', js_or JUndefined (JStr (template_name ?t))),
                              (''rule_description'',
                                 js_or JUndefined
                                   (case template_description ?t of
                                      None \<Rightarrow> JNull | Some d \<Rightarrow> JStr d)),
                              (''rule_config'', spread2 (template_config ?t) ?c),
                              (''priority'', js_or JUndefined (JNum 1))]),
                     ip_address = None, user_agent = None, audit_created_at = 100\<rparr>]"
    by auto
  from logged have len: "length (rule_audit_log (snd ?result)) = 1"
    by (simp add: example_db_def)
  from createRuleFromTemplate_merges
         [of "''t-9''" example_db strict_driver 100 "''r-new''" False False "''test-user''" ?c]
       missing
  have nf: "createRuleFromTemplate strict_driver example_db 100 ''r-new'' False False False
              ''t-9'' ''test-user'' ?c = (Inl (Error ''Template not found''), example_db)"
    by blast
  have a: "js_get (rule_config ?row) ''action'' = Inr (JStr ''block'')"
          "js_get (rule_config ?row) ''keywords'' = Inr (JArr [JStr ''lottery''])"
    by simp_all
  from f a stored len nf show ?thesis by (simp only: Let_def)
qed

text \<open>C5 as stated fails on the priority. The customizations carry the priority 0 and
  the rule gets 1, not the value that is present; with no priority in the customizations
  the rule gets 1 as well, though the template's configuration holds the priority 7.\<close>

theorem createRuleFromTemplate_priority_counterexample:
  "js_get (JObj [(''priority'', JNum 0)]) ''priority'' = Inr (JNum 0) \<and>
   fst (createRuleFromTemplate strict_driver example_db 100 ''r-new'' False False False
          ''t-1'' ''test-user'' (JObj [(''priority'', JNum 0)])) =
     Inr \<lparr>rule_id = ''r-new'', user_id = ''test-user'', rule_type = ''keyword_filter'',
          rule_name = ''Financial Protection'',
          rule_description = Some ''Template to protect against financial scams'',
          rule_config = JObj [(''rule_type'', JStr ''keyword_filter''),
                              (''keywords'', JArr [JStr ''lottery'']),
                              (''action'', JStr ''allow''), (''priority'', JNum 7),
                              (''priority'', JNum 0)],
          priority = 1, is_active = True, created_at = 100, updated_at = 100,
          created_by = Some ''test-user'', updated_by = None\<rparr> \<and>
   fst (createRuleFromTemplate strict_driver example_db 100 ''r-new'' False False False
          ''t-1'' ''test-user'' (JObj [])) =
     Inr \<lparr>rule_id = ''r-new'', user_id = ''test-user'', rule_type = ''keyword_filter'',
          rule_name = ''Financial Protection'',
          rule_description = Some ''Template to protect against financial scams'',
          rule_config = JObj [(''rule_type'', JStr ''keyword_filter''),
                              (''keywords'', JArr [JStr ''lottery'']),
                              (''action'', JStr ''allow''), (''priority'', JNum 7)],
          priority = 1, is_active = True, created_at = 100, updated_at = 100,
          created_by = Some ''test-user'', updated_by = None\<rparr>"
  by code_simp

end
